theory Spec2Isabelle
  imports Main "HOL-Library.Multiset"
begin

section \<open>JavaScript values and the library functions the sources call\<close>

text \<open>
  Strings are \<^typ>\<open>string\<close>: lists of 8-bit characters, read as JavaScript strings whose
  code units are all below 256 (on such strings \<open>btoa\<close> never throws). Numbers are
  integers, printed in decimal. Console logging is left out everywhere: it has no effect on
  results or state.
\<close>

datatype json =
    JNull
  | JBool bool
  | JNum int
  | JStr string
  | JArr "json list"
  | JObj "(string \<times> json) list"

text \<open>An optional JavaScript value: \<open>None\<close> is \<open>undefined\<close>.\<close>

type_synonym jsval = "json option"

fun digit_char :: "nat \<Rightarrow> char" where
  "digit_char n = char_of (48 + n)"

fun string_of_nat :: "nat \<Rightarrow> string" where
  "string_of_nat n =
     (if n < 10 then [digit_char n] else string_of_nat (n div 10) @ [digit_char (n mod 10)])"

declare string_of_nat.simps [simp del]

definition string_of_int :: "int \<Rightarrow> string" where
  "string_of_int i = (if i < 0 then CHR ''-'' # string_of_nat (nat (- i)) else string_of_nat (nat i))"

fun join :: "string \<Rightarrow> string list \<Rightarrow> string" where
  "join sep [] = []"
| "join sep [x] = x"
| "join sep (x # y # ys) = x @ sep @ join sep (y # ys)"

text \<open>\<open>String(v)\<close>, as template literals and \<open>+=\<close> on strings apply it.\<close>

fun js_to_string :: "json \<Rightarrow> string" where
  "js_to_string JNull = ''null''"
| "js_to_string (JBool b) = (if b then ''true'' else ''false'')"
| "js_to_string (JNum n) = string_of_int n"
| "js_to_string (JStr s) = s"
| "js_to_string (JArr xs) = join '','' (map (\<lambda>x. if x = JNull then [] else js_to_string x) xs)"
| "js_to_string (JObj kvs) = ''[object Object]''"

text \<open>Truthiness, as \<open>if (v)\<close>, \<open>!v\<close> and \<open>v || d\<close> test it.\<close>

fun truthy :: "jsval \<Rightarrow> bool" where
  "truthy None = False"
| "truthy (Some JNull) = False"
| "truthy (Some (JBool b)) = b"
| "truthy (Some (JNum n)) = (n \<noteq> 0)"
| "truthy (Some (JStr s)) = (s \<noteq> [])"
| "truthy (Some (JArr xs)) = True"
| "truthy (Some (JObj kvs)) = True"

text \<open>\<open>v || d\<close> with a defined right operand.\<close>

definition or_else :: "jsval \<Rightarrow> json \<Rightarrow> json" where
  "or_else v d = (if truthy v then the v else d)"

text \<open>
  \<open>v.key\<close> on a non-null value for the keys the sources read (\<open>error\<close>, \<open>message\<close>,
  \<open>detail\<close>, \<open>result\<close>): own properties of an object parsed from JSON (the last
  duplicate wins), \<open>undefined\<close> on strings, numbers, booleans and arrays.
\<close>

fun get_prop :: "json \<Rightarrow> string \<Rightarrow> jsval" where
  "get_prop (JObj kvs) k = map_of (rev kvs) k"
| "get_prop v k = None"

text \<open>\<open>v?.key\<close>: \<open>undefined\<close> when \<open>v\<close> is \<open>undefined\<close> or \<open>null\<close>.\<close>

fun opt_chain :: "jsval \<Rightarrow> string \<Rightarrow> jsval" where
  "opt_chain None k = None"
| "opt_chain (Some JNull) k = None"
| "opt_chain (Some v) k = get_prop v k"

definition startsWith :: "string \<Rightarrow> string \<Rightarrow> bool" where
  "startsWith s p = (take (length p) s = p)"

definition endsWith :: "string \<Rightarrow> string \<Rightarrow> bool" where
  "endsWith s p = (length p \<le> length s \<and> drop (length s - length p) s = p)"

subsection \<open>btoa\<close>

definition b64_alphabet :: string where
  "b64_alphabet = ''ABCDEFGHIJKLMNOPQRSTUVWXYZabcdefghijklmnopqrstuvwxyz0123456789+/''"

definition b64_char :: "nat \<Rightarrow> char" where
  "b64_char n = b64_alphabet ! (n mod 64)"

fun b64_encode :: "nat list \<Rightarrow> string" where
  "b64_encode [] = []"
| "b64_encode [a] = [b64_char (a div 4), b64_char ((a mod 4) * 16), CHR ''='', CHR ''='']"
| "b64_encode [a, b] =
     [b64_char (a div 4), b64_char ((a mod 4) * 16 + b div 16), b64_char ((b mod 16) * 4), CHR ''='']"
| "b64_encode (a # b # c # rest) =
     [b64_char (a div 4), b64_char ((a mod 4) * 16 + b div 16),
      b64_char ((b mod 16) * 4 + c div 64), b64_char (c mod 64)] @ b64_encode rest"

definition btoa :: "string \<Rightarrow> string" where
  "btoa s = b64_encode (map of_char s)"

subsection \<open>JSON.stringify\<close>

definition hex_digit :: "bool \<Rightarrow> nat \<Rightarrow> char" where
  "hex_digit upper n =
     (if n < 10 then char_of (48 + n) else char_of ((if upper then 55 else 87) + n))"

definition json_escape_char :: "char \<Rightarrow> string" where
  "json_escape_char c =
     (let n = (of_char c :: nat) in
      if c = CHR 0x22 then [CHR 0x5C, CHR 0x22]
      else if c = CHR 0x5C then [CHR 0x5C, CHR 0x5C]
      else if n = 8 then [CHR 0x5C, CHR ''b'']
      else if n = 9 then [CHR 0x5C, CHR ''t'']
      else if n = 10 then [CHR 0x5C, CHR ''n'']
      else if n = 12 then [CHR 0x5C, CHR ''f'']
      else if n = 13 then [CHR 0x5C, CHR ''r'']
      else if n < 32 then [CHR 0x5C, CHR ''u'', CHR ''0'', CHR ''0'',
                           hex_digit False (n div 16), hex_digit False (n mod 16)]
      else [c])"

definition json_quote :: "string \<Rightarrow> string" where
  "json_quote s = [CHR 0x22] @ concat (map json_escape_char s) @ [CHR 0x22]"

fun JSON_stringify :: "json \<Rightarrow> string" where
  "JSON_stringify JNull = ''null''"
| "JSON_stringify (JBool b) = (if b then ''true'' else ''false'')"
| "JSON_stringify (JNum n) = string_of_int n"
| "JSON_stringify (JStr s) = json_quote s"
| "JSON_stringify (JArr xs) = ''['' @ join '','' (map JSON_stringify xs) @ '']''"
| "JSON_stringify (JObj kvs) =
     ''{'' @ join '','' (map (\<lambda>(k, v). json_quote k @ '':'' @ JSON_stringify v) kvs) @ ''}''"

subsection \<open>URLSearchParams\<close>

text \<open>
  \<open>URLSearchParams.toString\<close>: the application/x-www-form-urlencoded serialiser over the
  UTF-8 bytes of each name and value.
\<close>

definition utf8_bytes :: "char \<Rightarrow> nat list" where
  "utf8_bytes c =
     (let n = (of_char c :: nat) in
      if n < 128 then [n] else [192 + n div 64, 128 + n mod 64])"

definition form_byte :: "nat \<Rightarrow> string" where
  "form_byte b =
     (if b = 32 then ''+''
      else if b = 42 \<or> b = 45 \<or> b = 46 \<or> b = 95 \<or> (48 \<le> b \<and> b \<le> 57)
              \<or> (65 \<le> b \<and> b \<le> 90) \<or> (97 \<le> b \<and> b \<le> 122)
      then [char_of b]
      else [CHR ''%'', hex_digit True (b div 16), hex_digit True (b mod 16)])"

definition form_encode :: "string \<Rightarrow> string" where
  "form_encode s = concat (map form_byte (concat (map utf8_bytes s)))"

definition URLSearchParams_toString :: "(string \<times> string) list \<Rightarrow> string" where
  "URLSearchParams_toString ps =
     join ''&'' (map (\<lambda>(k, v). form_encode k @ ''='' @ form_encode v) ps)"

section \<open>The platform: clock and network\<close>

text \<open>
  Errors as values. \<open>Js_error m\<close> is an \<open>Error\<close> instance (also \<open>TypeError\<close>,
  \<open>SyntaxError\<close>) with message \<open>m\<close>: it has no \<open>status\<close> property.
  \<open>Status_error s m d\<close> is the object literal \<open>{status: s, message: m, detail: d}\<close>
  that \<open>request\<close> throws (\<open>detail\<close> absent when \<open>d = None\<close>).
\<close>

datatype thrown =
    Js_error string
  | Status_error nat json "json option"

fun error_status :: "thrown \<Rightarrow> nat option" where
  "error_status (Js_error m) = None"
| "error_status (Status_error s m d) = Some s"

fun error_message :: "thrown \<Rightarrow> jsval" where
  "error_message (Js_error m) = Some (JStr m)"
| "error_message (Status_error s m d) = Some m"

text \<open>
  A request as \<open>fetch(url, init)\<close> receives it. \<open>signal\<close> is the abort signal of
  \<open>init\<close>: \<open>Some ms\<close> for the signal of a controller that a timer aborts after
  \<open>ms\<close> milliseconds, \<open>None\<close> when \<open>init\<close> has no signal.
\<close>

record http_request =
  url :: string
  http_method :: string
  headers :: "(string \<times> string) list"
  body :: "string option"
  signal :: "nat option"

text \<open>
  A response, with the results of the body readers as the sources call them:
  \<open>text_result\<close> is \<open>await response.text()\<close> on an unread body, \<open>json_result\<close> is
  \<open>await response.json()\<close>, \<open>text_after_json\<close> is \<open>await response.text()\<close> called
  after \<open>response.json()\<close>. \<open>Inl m\<close> is a rejection with message \<open>m\<close>. (The Fetch
  standard lets a body be read once: there \<open>text_after_json\<close> is always a rejection.
  The model leaves it open.)
\<close>

record http_response =
  status :: nat
  statusText :: string
  text_result :: "string + string"
  json_result :: "string + json"
  text_after_json :: "string + string"

definition ok :: "http_response \<Rightarrow> bool" where
  "ok r = (200 \<le> status r \<and> status r \<le> 299)"

text \<open>
  The world outside the client: \<open>clock\<close> gives the successive readings of
  \<open>Date.now()\<close> and \<open>reads\<close> counts them; \<open>net\<close> gives the outcome of each
  \<open>fetch\<close> in turn (\<open>Inl m\<close>: the promise rejects with a \<open>TypeError\<close> of message
  \<open>m\<close>), and \<open>sent\<close> records the requests issued, oldest first.
\<close>

record world =
  clock :: "nat \<Rightarrow> int"
  reads :: nat
  net :: "nat \<Rightarrow> string + http_response"
  sent :: "http_request list"

definition Date_now :: "world \<Rightarrow> int \<times> world" where
  "Date_now w = (clock w (reads w), w\<lparr>reads := Suc (reads w)\<rparr>)"

definition fetch :: "http_request \<Rightarrow> world \<Rightarrow> (string + http_response) \<times> world" where
  "fetch req w = (net w (length (sent w)), w\<lparr>sent := sent w @ [req]\<rparr>)"

section \<open>services/servicenow.ts: the ServiceNow API client\<close>

record ServiceNowCredential =
  sn_id :: string
  sn_user_id :: string
  sn_name :: string
  sn_instance_url :: string
  sn_username :: string
  sn_password :: string
  sn_created_at :: int

record client =
  baseUrl :: string
  username :: string
  password :: string
  accessToken :: "string option"
  tokenExpiry :: int
  credentialId :: string

definition ServiceNowAPI :: "ServiceNowCredential \<Rightarrow> client" where
  "ServiceNowAPI credential =
     \<lparr> baseUrl = (if endsWith (sn_instance_url credential) ''/''
                  then sn_instance_url credential
                  else sn_instance_url credential @ ''/''),
       username = sn_username credential,
       password = sn_password credential,
       accessToken = None,
       tokenExpiry = 0,
       credentialId = sn_id credential \<rparr>"

text \<open>\<open>`${this.accessToken}`\<close>: the token, or \<open>null\<close> printed.\<close>

definition token_text :: "string option \<Rightarrow> string" where
  "token_text t = (case t of None \<Rightarrow> ''null'' | Some s \<Rightarrow> s)"

text \<open>The \<open>try\<close> block of \<open>authenticate\<close>.\<close>

definition authenticate_try :: "client \<Rightarrow> world \<Rightarrow> (thrown + unit) \<times> client \<times> world" where
  "authenticate_try c w =
     (let (valid, w1) =
            (case accessToken c of
               None \<Rightarrow> (False, w)
             | Some t \<Rightarrow>
                 if t = [] then (False, w)
                 else (let (now, w') = Date_now w in (now < tokenExpiry c, w')))
      in if valid then (Inr (), c, w1)
         else if username c = [] \<or> password c = [] then
           (Inl (Js_error
              ''ServiceNow username or password is empty. Please check your credentials.''),
            c, w1)
         else
           (let encodedCredentials = btoa (username c @ '':'' @ password c);
                c1 = c\<lparr>accessToken := Some encodedCredentials\<rparr>;
                (now, w2) = Date_now w1;
                c2 = c1\<lparr>tokenExpiry := now + 3600000\<rparr>;
                testUrl = baseUrl c2 @ ''api/now/v2/table/sys_user?sysparm_limit=1'';
                (outcome, w3) =
                  fetch \<lparr> url = testUrl, http_method = ''GET'',
                          headers = [(''Accept'', ''application/json''),
                                     (''Authorization'', ''Basic '' @ token_text (accessToken c2))],
                          body = None, signal = None \<rparr> w2
            in case outcome of
                 Inl m \<Rightarrow> (Inl (Js_error m), c2, w3)
               | Inr testResponse \<Rightarrow>
                   if \<not> ok testResponse then
                     (case text_result testResponse of
                        Inl m \<Rightarrow> (Inl (Js_error m), c2, w3)
                      | Inr errorText \<Rightarrow>
                          (Inl (Js_error (''Basic auth test failed: ''
                                  @ string_of_nat (status testResponse) @ '' '' @ errorText)),
                           c2, w3))
                   else (Inr (), c2, w3)))"

text \<open>\<open>authenticate\<close>: the \<open>catch\<close> wraps whatever the \<open>try\<close> block threw.\<close>

definition authenticate :: "client \<Rightarrow> world \<Rightarrow> (thrown + unit) \<times> client \<times> world" where
  "authenticate c w =
     (case authenticate_try c w of
        (Inl error, c', w') \<Rightarrow>
          (Inl (Js_error (''Failed to authenticate with ServiceNow: ''
                  @ (case error_message error of None \<Rightarrow> ''undefined'' | Some m \<Rightarrow> js_to_string m))),
           c', w')
      | (Inr u, c', w') \<Rightarrow> (Inr u, c', w'))"

text \<open>
  The options \<open>request\<close> is called with: every call site passes \<open>method\<close> and
  \<open>body\<close> at most.
\<close>

record request_options =
  opt_method :: "string option"
  opt_body :: "string option"

text \<open>
  The \<open>if (!response.ok)\<close> block of \<open>request\<close>. Its inner \<open>try\<close> reads the body as
  JSON, builds the error \<open>{status, message, detail}\<close> and throws it; that \<open>throw\<close>
  stands inside the \<open>try\<close>, so the \<open>catch (jsonError)\<close> below it receives it, like a
  failure of \<open>response.json()\<close>. \<open>not_ok_try\<close> returns the value of \<open>errorMessage\<close>
  when the block is left, and what it threw.
\<close>

definition not_ok_try :: "http_response \<Rightarrow> json \<times> thrown" where
  "not_ok_try response =
     (let errorMessage = JStr (''Request failed with status '' @ string_of_nat (status response))
      in case json_result response of
           Inl m \<Rightarrow> (errorMessage, Js_error m)
         | Inr errorData \<Rightarrow>
             if errorData = JNull then
               (errorMessage, Js_error ''Cannot read properties of null (reading 'error')'')
             else
               (let message = or_else (opt_chain (get_prop errorData ''error'') ''message'')
                                (JStr ''Unknown error'');
                    detail = or_else (opt_chain (get_prop errorData ''error'') ''detail'') (JStr []);
                    errorMessage' =
                      (if truthy (Some detail)
                       then JStr (js_to_string message @ '': '' @ js_to_string detail)
                       else message)
                in (errorMessage', Status_error (status response) errorMessage' (Some detail))))"

text \<open>The \<open>catch (jsonError)\<close> handler: \<open>jsonError\<close> is not used.\<close>

definition not_ok_catch :: "http_response \<Rightarrow> json \<Rightarrow> thrown" where
  "not_ok_catch response errorMessage =
     (case text_after_json response of
        Inl m \<Rightarrow> Js_error m
      | Inr textError \<Rightarrow>
          Status_error (status response)
            (if textError \<noteq> [] then JStr textError
             else if statusText response \<noteq> [] then JStr (statusText response)
             else errorMessage)
            None)"

definition not_ok_error :: "http_response \<Rightarrow> thrown" where
  "not_ok_error response =
     (let (errorMessage, jsonError) = not_ok_try response
      in not_ok_catch response errorMessage)"

text \<open>The outer \<open>try\<close> block of \<open>request\<close>: one \<open>fetch\<close> and the reading of its response.\<close>

definition request_try ::
  "string \<Rightarrow> (string \<times> string) list \<Rightarrow> request_options \<Rightarrow> world \<Rightarrow> (thrown + json) \<times> world" where
  "request_try u hs options w =
     (let (outcome, w1) =
            fetch \<lparr> url = u,
                    http_method = (case opt_method options of None \<Rightarrow> ''GET'' | Some m \<Rightarrow> m),
                    headers = hs, body = opt_body options, signal = None \<rparr> w
      in case outcome of
           Inl m \<Rightarrow> (Inl (Js_error m), w1)
         | Inr response \<Rightarrow>
             if \<not> ok response then (Inl (not_ok_error response), w1)
             else (case json_result response of
                     Inl m \<Rightarrow> (Inl (Js_error m), w1)
                   | Inr v \<Rightarrow> (Inr v, w1)))"

definition request_url :: "client \<Rightarrow> string \<Rightarrow> string" where
  "request_url c endpoint =
     (if startsWith endpoint ''http'' then endpoint else baseUrl c @ ''api/now/v2/'' @ endpoint)"

definition request_headers :: "client \<Rightarrow> (string \<times> string) list" where
  "request_headers c =
     [(''Accept'', ''application/json''),
      (''Content-Type'', ''application/json''),
      (''Authorization'', ''Basic '' @ token_text (accessToken c))]"

text \<open>
  \<open>request\<close> calls itself from its \<open>catch\<close> with nothing that bounds the recursion, so
  the model takes fuel: one unit per call of \<open>request\<close>, \<open>None\<close> when it runs out.
  \<open>authenticate\<close> is awaited before the \<open>try\<close>: what it throws leaves \<open>request\<close>
  directly.
\<close>

fun request ::
  "nat \<Rightarrow> string \<Rightarrow> request_options \<Rightarrow> client \<Rightarrow> world \<Rightarrow> ((thrown + json) \<times> client \<times> world) option" where
  "request 0 endpoint options c w = None"
| "request (Suc fuel) endpoint options c w =
     (case authenticate c w of
        (Inl error, c1, w1) \<Rightarrow> Some (Inl error, c1, w1)
      | (Inr u, c1, w1) \<Rightarrow>
          (case request_try (request_url c1 endpoint) (request_headers c1) options w1 of
             (Inr v, w2) \<Rightarrow> Some (Inr v, c1, w2)
           | (Inl error, w2) \<Rightarrow>
               if error_status error = Some 401
               then request fuel endpoint options (c1\<lparr>accessToken := None, tokenExpiry := 0\<rparr>) w2
               else Some (Inl error, c1, w2)))"

subsection \<open>The public operations\<close>

text \<open>
  Every public operation awaits \<open>request\<close> inside a \<open>try\<close> and reads
  \<open>response.result\<close> there; its \<open>catch\<close> throws a new \<open>Error\<close> whose message is a
  prefix followed by \<open>error.message || "Unknown error"\<close>.
\<close>

definition read_result :: "json \<Rightarrow> thrown + jsval" where
  "read_result response =
     (if response = JNull
      then Inl (Js_error ''Cannot read properties of null (reading 'result')'')
      else Inr (get_prop response ''result''))"

definition wrap_error :: "string \<Rightarrow> thrown \<Rightarrow> thrown" where
  "wrap_error prefix error =
     Js_error (prefix @ js_to_string (or_else (error_message error) (JStr ''Unknown error'')))"

definition return_result ::
  "string \<Rightarrow> ((thrown + json) \<times> client \<times> world) option \<Rightarrow> ((thrown + jsval) \<times> client \<times> world) option" where
  "return_result prefix outcome =
     (case outcome of
        None \<Rightarrow> None
      | Some (Inl error, c, w) \<Rightarrow> Some (Inl (wrap_error prefix error), c, w)
      | Some (Inr response, c, w) \<Rightarrow>
          (case read_result response of
             Inl error \<Rightarrow> Some (Inl (wrap_error prefix error), c, w)
           | Inr v \<Rightarrow> Some (Inr v, c, w)))"

record ServiceNowQueryOptions =
  q_table :: string
  q_query :: "string option"
  q_limit :: "int option"
  q_offset :: "int option"
  q_fields :: "string list option"
  q_orderBy :: "string option"
  q_orderDirection :: "string option"

definition query_endpoint :: "ServiceNowQueryOptions \<Rightarrow> string" where
  "query_endpoint options =
     (let limit = (case q_limit options of None \<Rightarrow> 10 | Some n \<Rightarrow> n);
          offset = (case q_offset options of None \<Rightarrow> 0 | Some n \<Rightarrow> n);
          fieldNames = (case q_fields options of None \<Rightarrow> [] | Some fs \<Rightarrow> fs);
          orderDirection = (case q_orderDirection options of None \<Rightarrow> ''desc'' | Some d \<Rightarrow> d);
          endpoint = ''table/'' @ q_table options;
          queryParams =
            (case q_query options of
               None \<Rightarrow> []
             | Some q \<Rightarrow> if q \<noteq> [] then [(''sysparm_query'', q)] else [])
            @ [(''sysparm_limit'', string_of_int limit), (''sysparm_offset'', string_of_int offset)]
            @ (if length fieldNames > 0 then [(''sysparm_fields'', join '','' fieldNames)] else [])
            @ (case q_orderBy options of
                 None \<Rightarrow> []
               | Some ob \<Rightarrow>
                   if ob \<noteq> [] then [(''sysparm_order_by'', ob), (''sysparm_order'', orderDirection)]
                   else []);
          queryString = URLSearchParams_toString queryParams
      in if queryString \<noteq> [] then endpoint @ ''?'' @ queryString else endpoint)"

definition no_options :: request_options where
  "no_options = \<lparr> opt_method = None, opt_body = None \<rparr>"

definition queryRecords ::
  "nat \<Rightarrow> ServiceNowQueryOptions \<Rightarrow> client \<Rightarrow> world \<Rightarrow> ((thrown + jsval) \<times> client \<times> world) option" where
  "queryRecords fuel options c w =
     return_result (''Failed to query '' @ q_table options @ '' records: '')
       (request fuel (query_endpoint options) no_options c w)"

definition record_endpoint :: "string \<Rightarrow> string \<Rightarrow> string list \<Rightarrow> string" where
  "record_endpoint table sysId fieldNames =
     (let endpoint = ''table/'' @ table @ ''/'' @ sysId
      in if length fieldNames > 0
         then endpoint @ ''?'' @ URLSearchParams_toString [(''sysparm_fields'', join '','' fieldNames)]
         else endpoint)"

definition getRecord ::
  "nat \<Rightarrow> string \<Rightarrow> string \<Rightarrow> string list \<Rightarrow> client \<Rightarrow> world \<Rightarrow> ((thrown + jsval) \<times> client \<times> world) option" where
  "getRecord fuel table sysId fieldNames c w =
     return_result (''Failed to get '' @ table @ '' record: '')
       (request fuel (record_endpoint table sysId fieldNames) no_options c w)"

definition createRecord ::
  "nat \<Rightarrow> string \<Rightarrow> json \<Rightarrow> client \<Rightarrow> world \<Rightarrow> ((thrown + jsval) \<times> client \<times> world) option" where
  "createRecord fuel table data c w =
     return_result (''Failed to create '' @ table @ '' record: '')
       (request fuel (''table/'' @ table)
          \<lparr> opt_method = Some ''POST'', opt_body = Some (JSON_stringify data) \<rparr> c w)"

definition updateRecord ::
  "nat \<Rightarrow> string \<Rightarrow> string \<Rightarrow> json \<Rightarrow> client \<Rightarrow> world \<Rightarrow> ((thrown + jsval) \<times> client \<times> world) option" where
  "updateRecord fuel table sysId data c w =
     return_result (''Failed to update '' @ table @ '' record: '')
       (request fuel (''table/'' @ table @ ''/'' @ sysId)
          \<lparr> opt_method = Some ''PATCH'', opt_body = Some (JSON_stringify data) \<rparr> c w)"

definition deleteRecord ::
  "nat \<Rightarrow> string \<Rightarrow> string \<Rightarrow> client \<Rightarrow> world \<Rightarrow> ((thrown + unit) \<times> client \<times> world) option" where
  "deleteRecord fuel table sysId c w =
     (case request fuel (''table/'' @ table @ ''/'' @ sysId)
             \<lparr> opt_method = Some ''DELETE'', opt_body = None \<rparr> c w of
        None \<Rightarrow> None
      | Some (Inl error, c', w') \<Rightarrow>
          Some (Inl (wrap_error (''Failed to delete '' @ table @ '' record: '') error), c', w')
      | Some (Inr response, c', w') \<Rightarrow> Some (Inr (), c', w'))"

definition executeScript ::
  "nat \<Rightarrow> string \<Rightarrow> client \<Rightarrow> world \<Rightarrow> ((thrown + jsval) \<times> client \<times> world) option" where
  "executeScript fuel script c w =
     return_result ''Failed to execute script: ''
       (request fuel ''v1/script/execute''
          \<lparr> opt_method = Some ''POST'',
            opt_body = Some (JSON_stringify (JObj [(''script'', JStr script)])) \<rparr> c w)"

definition testConnection :: "nat \<Rightarrow> client \<Rightarrow> world \<Rightarrow> (bool \<times> client \<times> world) option" where
  "testConnection fuel c w =
     (case authenticate c w of
        (Inl error, c1, w1) \<Rightarrow> Some (False, c1, w1)
      | (Inr u, c1, w1) \<Rightarrow>
          (case request fuel ''table/sys_user?sysparm_limit=1'' no_options c1 w1 of
             None \<Rightarrow> None
           | Some (Inl error, c2, w2) \<Rightarrow> Some (False, c2, w2)
           | Some (Inr response, c2, w2) \<Rightarrow> Some (True, c2, w2)))"

subsection \<open>Notions the statements about the client use\<close>

text \<open>The URL of the request \<open>authenticate\<close> tests the token with.\<close>

definition verification_url :: "client \<Rightarrow> string" where
  "verification_url c = baseUrl c @ ''api/now/v2/table/sys_user?sysparm_limit=1''"

text \<open>The fields a client gets from its credential.\<close>

definition same_identity :: "client \<Rightarrow> client \<Rightarrow> bool" where
  "same_identity c c' =
     (baseUrl c' = baseUrl c \<and> username c' = username c \<and> password c' = password c
      \<and> credentialId c' = credentialId c)"

subsection \<open>Concrete clients, responses and worlds\<close>

definition example_credential :: ServiceNowCredential where
  "example_credential =
     \<lparr> sn_id = ''cred-1'', sn_user_id = ''user-1'', sn_name = ''dev'',
       sn_instance_url = ''https://dev.service-now.com'',
       sn_username = ''admin'', sn_password = ''pw'',
       sn_created_at = 1719792000000 \<rparr>"

definition example_client :: client where
  "example_client = ServiceNowAPI example_credential"

text \<open>
  A response whose body is the JSON text of \<open>v\<close>, and one whose body is the plain text
  \<open>t\<close> (not JSON). \<open>reread\<close> says whether the platform lets \<open>text()\<close> read the body
  again after \<open>json()\<close> has read it.
\<close>

definition json_response :: "nat \<Rightarrow> string \<Rightarrow> json \<Rightarrow> bool \<Rightarrow> http_response" where
  "json_response st stt v reread =
     \<lparr> status = st, statusText = stt,
       text_result = Inr (JSON_stringify v),
       json_result = Inr v,
       text_after_json = (if reread then Inr (JSON_stringify v) else Inl ''body stream already read'') \<rparr>"

definition text_response :: "nat \<Rightarrow> string \<Rightarrow> string \<Rightarrow> bool \<Rightarrow> http_response" where
  "text_response st stt t reread =
     \<lparr> status = st, statusText = stt,
       text_result = Inr t,
       json_result = Inl ''Unexpected token in JSON at position 0'',
       text_after_json = (if reread then Inr t else Inl ''body stream already read'') \<rparr>"

text \<open>
  A response without a body (\<open>new Response(null, ...)\<close>): \<open>json()\<close> rejects, and
  \<open>text()\<close> gives the empty string however often the body is read.
\<close>

definition bodiless_response :: "nat \<Rightarrow> string \<Rightarrow> http_response" where
  "bodiless_response st stt =
     \<lparr> status = st, statusText = stt,
       text_result = Inr [],
       json_result = Inl ''Unexpected end of JSON input'',
       text_after_json = Inr [] \<rparr>"

definition users_response :: http_response where
  "users_response = json_response 200 ''OK'' (JObj [(''result'', JArr [])]) False"

definition done_response :: http_response where
  "done_response = json_response 200 ''OK'' (JObj [(''result'', JStr ''done'')]) False"

definition unauthorized_body :: json where
  "unauthorized_body =
     JObj [(''error'', JObj [(''message'', JStr ''User Not Authenticated''),
                             (''detail'', JStr ''Required to provide Auth information'')]),
           (''status'', JStr ''failure'')]"

definition example_world :: "(nat \<Rightarrow> string + http_response) \<Rightarrow> world" where
  "example_world answers =
     \<lparr> clock = (\<lambda>i. 1700000000000 + 1000 * int i), reads = 0, net = answers, sent = [] \<rparr>"

text \<open>
  Every verification request succeeds; the other requests get a 401 without a body three
  times, then 200.
\<close>

definition three_401_world :: world where
  "three_401_world =
     example_world (\<lambda>i. if even i then Inr users_response
                         else if i < 6 then Inr (bodiless_response 401 ''Unauthorized'')
                         else Inr done_response)"

text \<open>One 401 whose body is JSON text and can be read once, then 200.\<close>

definition one_401_world :: world where
  "one_401_world =
     example_world (\<lambda>i. if even i then Inr users_response
                         else if i < 2 then Inr (json_response 401 ''Unauthorized'' unauthorized_body False)
                         else Inr done_response)"

text \<open>Every request gets a 200 response.\<close>

definition all_ok_world :: world where
  "all_ok_world = example_world (\<lambda>i. Inr users_response)"

definition first_call :: "(thrown + unit) \<times> client \<times> world" where
  "first_call = authenticate example_client all_ok_world"

definition second_call :: "(thrown + unit) \<times> client \<times> world" where
  "second_call = authenticate (fst (snd first_call)) (snd (snd first_call))"

text \<open>
  \<open>retry_state k\<close> follows \<open>request\<close> through \<open>k\<close> passes that each end in the
  \<open>catch\<close> with an error of status 401: it returns the client and the world with which
  the next pass starts, and \<open>None\<close> when one of these passes ends otherwise.
\<close>

fun retry_state ::
  "nat \<Rightarrow> string \<Rightarrow> request_options \<Rightarrow> client \<Rightarrow> world \<Rightarrow> (client \<times> world) option" where
  "retry_state 0 endpoint options c w = Some (c, w)"
| "retry_state (Suc k) endpoint options c w =
     (case authenticate c w of
        (Inl error, c1, w1) \<Rightarrow> None
      | (Inr u, c1, w1) \<Rightarrow>
          (case request_try (request_url c1 endpoint) (request_headers c1) options w1 of
             (Inr v, w2) \<Rightarrow> None
           | (Inl error, w2) \<Rightarrow>
               if error_status error = Some 401
               then retry_state k endpoint options (c1\<lparr>accessToken := None, tokenExpiry := 0\<rparr>) w2
               else None))"

text \<open>The operations of a client, and the state each leaves behind.\<close>

datatype operation =
    Authenticate
  | Request string request_options
  | QueryRecords ServiceNowQueryOptions
  | GetRecord string string "string list"
  | CreateRecord string json
  | UpdateRecord string string json
  | DeleteRecord string string
  | ExecuteScript string
  | TestConnection

fun state_after :: "nat \<Rightarrow> operation \<Rightarrow> client \<Rightarrow> world \<Rightarrow> (client \<times> world) option" where
  "state_after fuel Authenticate c w = Some (snd (authenticate c w))"
| "state_after fuel (Request endpoint options) c w = map_option snd (request fuel endpoint options c w)"
| "state_after fuel (QueryRecords options) c w = map_option snd (queryRecords fuel options c w)"
| "state_after fuel (GetRecord table sysId fieldNames) c w =
     map_option snd (getRecord fuel table sysId fieldNames c w)"
| "state_after fuel (CreateRecord table data) c w = map_option snd (createRecord fuel table data c w)"
| "state_after fuel (UpdateRecord table sysId data) c w =
     map_option snd (updateRecord fuel table sysId data c w)"
| "state_after fuel (DeleteRecord table sysId) c w = map_option snd (deleteRecord fuel table sysId c w)"
| "state_after fuel (ExecuteScript script) c w = map_option snd (executeScript fuel script c w)"
| "state_after fuel TestConnection c w = map_option snd (testConnection fuel c w)"

definition script_options :: request_options where
  "script_options =
     \<lparr> opt_method = Some ''POST'',
       opt_body = Some (JSON_stringify (JObj [(''script'', JStr ''gs.info(1)'')])) \<rparr>"

text \<open>The verification succeeds; the request itself gets a 500 without a body.\<close>

definition server_error_world :: world where
  "server_error_world =
     example_world (\<lambda>i. if even i then Inr users_response
                         else Inr (bodiless_response 500 ''Internal Server Error''))"

text \<open>The verification request is answered with 401 and a plain-text body.\<close>

definition rejected_world :: world where
  "rejected_world = example_world (\<lambda>i. Inr (text_response 401 ''Unauthorized'' ''denied'' False))"

definition rejected_first :: "(thrown + unit) \<times> client \<times> world" where
  "rejected_first = authenticate example_client rejected_world"

definition rejected_second :: "(thrown + unit) \<times> client \<times> world" where
  "rejected_second = authenticate (fst (snd rejected_first)) (snd (snd rejected_first))"

definition forbidden_body :: json where
  "forbidden_body =
     JObj [(''error'', JObj [(''message'', JStr ''Insufficient rights''),
                             (''detail'', JStr ''ACL restricts the record'')])]"

text \<open>The verification succeeds; the request itself gets a 403 with a JSON error body.\<close>

definition forbidden_world :: "bool \<Rightarrow> world" where
  "forbidden_world reread =
     example_world (\<lambda>i. if even i then Inr users_response
                         else Inr (json_response 403 ''Forbidden'' forbidden_body reread))"

text \<open>The verification succeeds and the script request gets a 200.\<close>

definition script_world :: world where
  "script_world = example_world (\<lambda>i. if i = 0 then Inr users_response else Inr done_response)"

section \<open>The backend: tables, generated values and failures\<close>

text \<open>
  The tables of the migrations (\<open>conversations\<close>, \<open>messages\<close>,
  \<open>servicenow_credentials\<close>) as lists of rows in insertion order. Timestamps are
  instants, in milliseconds since the epoch: a \<open>Date\<close>, its ISO text and the stored
  \<open>timestamptz\<close> are one value (invalid dates are outside the model). The \<open>metadata\<close>
  of a message is \<open>null\<close> or \<open>{codeSnippets: [...]}\<close>, the two shapes
  \<open>saveConversation\<close> writes.
\<close>

record CodeSnippet =
  snip_id :: string
  snip_code :: string
  snip_language :: string

record ChatMessage =
  cm_id :: string
  cm_content :: string
  cm_sender :: string
  cm_timestamp :: int
  cm_codeSnippets :: "CodeSnippet list option"

record ChatConversation =
  cc_id :: string
  cc_title :: string
  cc_createdAt :: int
  cc_updatedAt :: int
  cc_messages :: "ChatMessage list option"

record conversation_row =
  conv_id :: string
  conv_user_id :: string
  conv_title :: string
  conv_created_at :: int
  conv_updated_at :: int

record message_row =
  msg_id :: string
  msg_conversation_id :: string
  msg_content :: string
  msg_sender :: string
  msg_created_at :: int
  msg_metadata :: "CodeSnippet list option"

text \<open>The \<open>error\<close> member of a Supabase result.\<close>

record db_error =
  err_code :: string
  err_message :: string

text \<open>
  What can go wrong with a call for reasons outside the tables (transport, permissions,
  row-level security): \<open>Fails e\<close>, the call resolves with \<open>{data: null, error: e}\<close>;
  \<open>Rejects m\<close>, its promise rejects with an \<open>Error\<close> of message \<open>m\<close>.
\<close>

datatype fault = Fails db_error | Rejects string

text \<open>
  \<open>faults\<close> says what goes wrong at each call, by position, and \<open>calls\<close> counts the
  calls made; \<open>new_ids\<close> gives the values of \<open>uuid_generate_v4()\<close> in turn and
  \<open>issued\<close> counts them; \<open>db_clock\<close> and \<open>db_reads\<close> do the same for the readings of
  the time (\<open>new Date()\<close>, \<open>now()\<close>); \<open>auth_user\<close> is the id of the signed-in user.
  Row-level security is not modelled: a call sees every row, and a refusal is a fault.
\<close>

record backend =
  conversations :: "conversation_row list"
  messages :: "message_row list"
  servicenow_credentials :: "ServiceNowCredential list"
  faults :: "nat \<Rightarrow> fault option"
  calls :: nat
  new_ids :: "nat \<Rightarrow> string"
  issued :: nat
  db_clock :: "nat \<Rightarrow> int"
  db_reads :: nat
  auth_user :: "string option"

definition db_call :: "backend \<Rightarrow> fault option \<times> backend" where
  "db_call b = (faults b (calls b), b\<lparr>calls := Suc (calls b)\<rparr>)"

definition db_now :: "backend \<Rightarrow> int \<times> backend" where
  "db_now b = (db_clock b (db_reads b), b\<lparr>db_reads := Suc (db_reads b)\<rparr>)"

text \<open>\<open>n\<close> generated ids.\<close>

definition generate_ids :: "nat \<Rightarrow> backend \<Rightarrow> string list \<times> backend" where
  "generate_ids n b = (map (new_ids b) [issued b ..< issued b + n], b\<lparr>issued := issued b + n\<rparr>)"

definition duplicate_key :: db_error where
  "duplicate_key =
     \<lparr> err_code = ''23505'', err_message = ''duplicate key value violates unique constraint'' \<rparr>"

definition no_single_row :: db_error where
  "no_single_row =
     \<lparr> err_code = ''PGRST116'',
       err_message = ''JSON object requested, multiple (or no) rows returned'' \<rparr>"

text \<open>
  \<open>from("conversations").insert({user_id, title, created_at, updated_at}).select("id").single()\<close>:
  the row gets a generated id, which the primary key requires to be new.
\<close>

definition insert_conversation ::
  "string \<Rightarrow> string \<Rightarrow> int \<Rightarrow> int \<Rightarrow> backend \<Rightarrow> (fault + string) \<times> backend" where
  "insert_conversation userId title created updated b =
     (case db_call b of
        (Some f, b1) \<Rightarrow> (Inl f, b1)
      | (None, b1) \<Rightarrow>
          (let (ids, b2) = generate_ids 1 b1; newId = hd ids
           in if newId \<in> set (map conv_id (conversations b2)) then (Inl (Fails duplicate_key), b2)
              else (Inr newId,
                    b2\<lparr>conversations := conversations b2 @
                         [\<lparr> conv_id = newId, conv_user_id = userId, conv_title = title,
                            conv_created_at = created, conv_updated_at = updated \<rparr>]\<rparr>)))"

text \<open>
  \<open>from("messages").insert(rows)\<close>, the rows given without ids: one statement, which
  inserts all rows or none. The foreign key requires the conversation of each row to exist.
\<close>

definition foreign_key_violation :: db_error where
  "foreign_key_violation =
     \<lparr> err_code = ''23503'', err_message = ''insert or update violates foreign key constraint'' \<rparr>"

definition insert_messages ::
  "(string \<times> string \<times> string \<times> int \<times> CodeSnippet list option) list \<Rightarrow> backend
     \<Rightarrow> (fault + unit) \<times> backend" where
  "insert_messages rows b =
     (case db_call b of
        (Some f, b1) \<Rightarrow> (Inl f, b1)
      | (None, b1) \<Rightarrow>
          (let (ids, b2) = generate_ids (length rows) b1
           in if \<not> distinct ids \<or> set ids \<inter> set (map msg_id (messages b2)) \<noteq> {}
              then (Inl (Fails duplicate_key), b2)
              else if \<not> (\<forall>(cid, content, sender, created, metadata) \<in> set rows.
                             cid \<in> set (map conv_id (conversations b2)))
              then (Inl (Fails foreign_key_violation), b2)
              else (Inr (),
                    b2\<lparr>messages := messages b2 @
                         map (\<lambda>(newId, cid, content, sender, created, metadata).
                                \<lparr> msg_id = newId, msg_conversation_id = cid, msg_content = content,
                                  msg_sender = sender, msg_created_at = created,
                                  msg_metadata = metadata \<rparr>)
                             (zip ids rows)\<rparr>)))"

text \<open>\<open>from("conversations").select("*").eq("id", id).single()\<close>.\<close>

definition select_conversation :: "string \<Rightarrow> backend \<Rightarrow> (fault + conversation_row) \<times> backend" where
  "select_conversation cid b =
     (case db_call b of
        (Some f, b1) \<Rightarrow> (Inl f, b1)
      | (None, b1) \<Rightarrow>
          (case filter (\<lambda>r. conv_id r = cid) (conversations b1) of
             [r] \<Rightarrow> (Inr r, b1)
           | _ \<Rightarrow> (Inl (Fails no_single_row), b1)))"

text \<open>
  \<open>from("messages").select("*").eq("conversation_id", id).order("created_at", {ascending: true})\<close>.
  SQL leaves the order of rows with equal \<open>created_at\<close> open; the model keeps them in
  table order.
\<close>

definition select_messages :: "string \<Rightarrow> backend \<Rightarrow> (fault + message_row list) \<times> backend" where
  "select_messages cid b =
     (case db_call b of
        (Some f, b1) \<Rightarrow> (Inl f, b1)
      | (None, b1) \<Rightarrow>
          (Inr (sort_key msg_created_at (filter (\<lambda>r. msg_conversation_id r = cid) (messages b1))), b1))"

text \<open>
  \<open>from("conversations").select("*").eq("user_id", userId).order("updated_at", {ascending: false})\<close>.
\<close>

definition select_conversations :: "string \<Rightarrow> backend \<Rightarrow> (fault + conversation_row list) \<times> backend" where
  "select_conversations userId b =
     (case db_call b of
        (Some f, b1) \<Rightarrow> (Inl f, b1)
      | (None, b1) \<Rightarrow>
          (Inr (rev (sort_key conv_updated_at (filter (\<lambda>r. conv_user_id r = userId) (conversations b1)))),
           b1))"

text \<open>\<open>from("conversations").update({title, updated_at}).eq("id", id)\<close>.\<close>

definition update_conversation :: "string \<Rightarrow> string \<Rightarrow> int \<Rightarrow> backend \<Rightarrow> (fault + unit) \<times> backend" where
  "update_conversation cid title updated b =
     (case db_call b of
        (Some f, b1) \<Rightarrow> (Inl f, b1)
      | (None, b1) \<Rightarrow>
          (Inr (),
           b1\<lparr>conversations :=
                 map (\<lambda>r. if conv_id r = cid then r\<lparr>conv_title := title, conv_updated_at := updated\<rparr>
                           else r)
                     (conversations b1)\<rparr>))"

text \<open>\<open>from("messages").delete().eq("conversation_id", id)\<close>.\<close>

definition delete_messages :: "string \<Rightarrow> backend \<Rightarrow> (fault + unit) \<times> backend" where
  "delete_messages cid b =
     (case db_call b of
        (Some f, b1) \<Rightarrow> (Inl f, b1)
      | (None, b1) \<Rightarrow>
          (Inr (), b1\<lparr>messages := filter (\<lambda>r. msg_conversation_id r \<noteq> cid) (messages b1)\<rparr>))"

text \<open>
  \<open>from("conversations").delete().eq("id", id)\<close>; the messages of the conversation go with
  it (\<open>ON DELETE CASCADE\<close>).
\<close>

definition delete_conversation_row :: "string \<Rightarrow> backend \<Rightarrow> (fault + unit) \<times> backend" where
  "delete_conversation_row cid b =
     (case db_call b of
        (Some f, b1) \<Rightarrow> (Inl f, b1)
      | (None, b1) \<Rightarrow>
          (Inr (),
           b1\<lparr>conversations := filter (\<lambda>r. conv_id r \<noteq> cid) (conversations b1),
               messages := filter (\<lambda>r. msg_conversation_id r \<noteq> cid) (messages b1)\<rparr>))"

section \<open>services/chat.ts: chat persistence\<close>

text \<open>
  Each function is one \<open>try\<close> whose \<open>catch\<close> returns the sentinel: a rejected call
  (\<open>Rejects\<close>) and an \<open>error\<close> member (\<open>Fails\<close>) both end in it.
\<close>

definition saveConversation ::
  "string \<Rightarrow> string \<Rightarrow> ChatMessage list \<Rightarrow> backend \<Rightarrow> string option \<times> backend" where
  "saveConversation userId title msgs b =
     (let (created, b1) = db_now b;
          (updated, b2) = db_now b1;
          (conversationResult, b3) = insert_conversation userId title created updated b2
      in case conversationResult of
           Inl f \<Rightarrow> (None, b3)
         | Inr conversationId \<Rightarrow>
             (let messagesToInsert =
                    map (\<lambda>message. (conversationId, cm_content message, cm_sender message,
                                     cm_timestamp message, cm_codeSnippets message)) msgs;
                  (messagesResult, b4) = insert_messages messagesToInsert b3
              in case messagesResult of
                   Inl f \<Rightarrow> (None, b4)
                 | Inr u \<Rightarrow> (Some conversationId, b4)))"

definition getConversations :: "string \<Rightarrow> backend \<Rightarrow> ChatConversation list \<times> backend" where
  "getConversations userId b =
     (case select_conversations userId b of
        (Inl f, b1) \<Rightarrow> ([], b1)
      | (Inr rows, b1) \<Rightarrow>
          (map (\<lambda>conv. \<lparr> cc_id = conv_id conv, cc_title = conv_title conv,
                          cc_createdAt = conv_created_at conv, cc_updatedAt = conv_updated_at conv,
                          cc_messages = None \<rparr>) rows,
           b1))"

definition getConversationWithMessages ::
  "string \<Rightarrow> backend \<Rightarrow> ChatConversation option \<times> backend" where
  "getConversationWithMessages conversationId b =
     (case select_conversation conversationId b of
        (Inl f, b1) \<Rightarrow> (None, b1)
      | (Inr conversationData, b1) \<Rightarrow>
          (case select_messages conversationId b1 of
             (Inl f, b2) \<Rightarrow> (None, b2)
           | (Inr messagesData, b2) \<Rightarrow>
               (let msgs = map (\<lambda>msg. \<lparr> cm_id = msg_id msg, cm_content = msg_content msg,
                                         cm_sender = msg_sender msg, cm_timestamp = msg_created_at msg,
                                         cm_codeSnippets = msg_metadata msg \<rparr>) messagesData
                in (Some \<lparr> cc_id = conv_id conversationData, cc_title = conv_title conversationData,
                           cc_createdAt = conv_created_at conversationData,
                           cc_updatedAt = conv_updated_at conversationData,
                           cc_messages = Some msgs \<rparr>,
                    b2))))"

definition updateConversationTitle :: "string \<Rightarrow> string \<Rightarrow> backend \<Rightarrow> bool \<times> backend" where
  "updateConversationTitle conversationId title b =
     (let (updated, b1) = db_now b
      in case update_conversation conversationId title updated b1 of
           (Inl f, b2) \<Rightarrow> (False, b2)
         | (Inr u, b2) \<Rightarrow> (True, b2))"

definition deleteConversation :: "string \<Rightarrow> backend \<Rightarrow> bool \<times> backend" where
  "deleteConversation conversationId b =
     (case delete_messages conversationId b of
        (Inl f, b1) \<Rightarrow> (False, b1)
      | (Inr u, b1) \<Rightarrow>
          (case delete_conversation_row conversationId b1 of
             (Inl f, b2) \<Rightarrow> (False, b2)
           | (Inr u', b2) \<Rightarrow> (True, b2)))"

text \<open>The row \<open>saveConversation\<close> stores for a message, under the id the table gives it.\<close>

definition stored_message :: "string \<Rightarrow> string \<times> ChatMessage \<Rightarrow> message_row" where
  "stored_message cid =
     (\<lambda>(i, m). \<lparr> msg_id = i, msg_conversation_id = cid, msg_content = cm_content m,
                 msg_sender = cm_sender m, msg_created_at = cm_timestamp m,
                 msg_metadata = cm_codeSnippets m \<rparr>)"

text \<open>Every message row belongs to a conversation row (the foreign key of \<open>messages\<close>).\<close>

definition foreign_keys_hold :: "backend \<Rightarrow> bool" where
  "foreign_keys_hold b =
     (\<forall>m \<in> set (messages b). msg_conversation_id m \<in> set (map conv_id (conversations b)))"

text \<open>A message without its id.\<close>

definition without_id :: "ChatMessage \<Rightarrow> ChatMessage" where
  "without_id m = m\<lparr>cm_id := []\<rparr>"

subsection \<open>Concrete messages and backends\<close>

definition example_backend :: backend where
  "example_backend =
     \<lparr> conversations = [], messages = [], servicenow_credentials = [],
       faults = (\<lambda>i. None), calls = 0,
       new_ids = (\<lambda>i. ''uuid-'' @ string_of_nat i), issued = 0,
       db_clock = (\<lambda>i. 1700000000000 + int i), db_reads = 0,
       auth_user = Some ''user-1'' \<rparr>"

definition m1 :: ChatMessage where
  "m1 = \<lparr> cm_id = ''1'', cm_content = ''How do I list incidents?'', cm_sender = ''user'',
          cm_timestamp = 1700000005000, cm_codeSnippets = None \<rparr>"

definition m2 :: ChatMessage where
  "m2 = \<lparr> cm_id = ''2'', cm_content = ''Query the incident table.'', cm_sender = ''ai'',
          cm_timestamp = 1700000009000,
          cm_codeSnippets = Some [\<lparr> snip_id = ''s1'', snip_code = ''gr.query();'',
                                   snip_language = ''javascript'' \<rparr>] \<rparr>"

text \<open>Saving a list of messages to the empty backend, then reading the conversation back.\<close>

definition saved :: "ChatMessage list \<Rightarrow> string option \<times> backend" where
  "saved msgs = saveConversation ''user-1'' ''Title'' msgs example_backend"

definition read_back :: "ChatMessage list \<Rightarrow> ChatConversation option" where
  "read_back msgs = fst (getConversationWithMessages ''uuid-0'' (snd (saved msgs)))"

section \<open>lib/mockAuth.ts: the credential store\<close>

text \<open>
  What these functions throw: the \<open>error\<close> member of a result (\<open>throw error\<close>), or an
  \<open>Error\<close> (a rejected call, or \<open>new Error(...)\<close>).
\<close>

datatype store_thrown = Postgrest db_error | Exception string

fun throw_of :: "fault \<Rightarrow> store_thrown" where
  "throw_of (Fails e) = Postgrest e"
| "throw_of (Rejects m) = Exception m"

text \<open>\<open>s.includes(p)\<close>.\<close>

fun str_includes :: "string \<Rightarrow> string \<Rightarrow> bool" where
  "str_includes [] p = (p = [])"
| "str_includes (x # xs) p = (startsWith (x # xs) p \<or> str_includes xs p)"

text \<open>
  \<open>Partial<Omit<ServiceNowCredential, "id" | "user_id" | "created_at">>\<close>: a member that
  is absent or \<open>undefined\<close> is \<open>None\<close> (neither reaches the request body).
\<close>

record credential_updates =
  upd_name :: "string option"
  upd_instance_url :: "string option"
  upd_username :: "string option"
  upd_password :: "string option"

text \<open>SQL \<open>UPDATE ... SET\<close> with the columns given: the other columns keep their values.\<close>

definition apply_updates :: "credential_updates \<Rightarrow> ServiceNowCredential \<Rightarrow> ServiceNowCredential" where
  "apply_updates updates row =
     row\<lparr> sn_name := (case upd_name updates of None \<Rightarrow> sn_name row | Some v \<Rightarrow> v),
          sn_instance_url := (case upd_instance_url updates of None \<Rightarrow> sn_instance_url row | Some v \<Rightarrow> v),
          sn_username := (case upd_username updates of None \<Rightarrow> sn_username row | Some v \<Rightarrow> v),
          sn_password := (case upd_password updates of None \<Rightarrow> sn_password row | Some v \<Rightarrow> v) \<rparr>"

text \<open>The constraint \<open>UNIQUE(user_id, name)\<close> of \<open>servicenow_credentials\<close>.\<close>

definition names_unique :: "ServiceNowCredential list \<Rightarrow> bool" where
  "names_unique rows = distinct (map (\<lambda>r. (sn_user_id r, sn_name r)) rows)"

text \<open>
  \<open>from("servicenow_credentials").update(updates).eq("id", id).eq("user_id", userId).select().single()\<close>:
  one statement; when it fails, no row has changed.
\<close>

definition updated_rows ::
  "string \<Rightarrow> string \<Rightarrow> credential_updates \<Rightarrow> ServiceNowCredential list \<Rightarrow> ServiceNowCredential list" where
  "updated_rows cid userId updates rows =
     map (\<lambda>r. if sn_id r = cid \<and> sn_user_id r = userId then apply_updates updates r else r) rows"

definition update_credential ::
  "string \<Rightarrow> string \<Rightarrow> credential_updates \<Rightarrow> backend \<Rightarrow> (fault + ServiceNowCredential) \<times> backend" where
  "update_credential cid userId updates b =
     (case db_call b of
        (Some f, b1) \<Rightarrow> (Inl f, b1)
      | (None, b1) \<Rightarrow>
          (let rows = updated_rows cid userId updates (servicenow_credentials b1)
           in if \<not> names_unique rows then (Inl (Fails duplicate_key), b1)
              else (case filter (\<lambda>r. sn_id r = cid \<and> sn_user_id r = userId) rows of
                      [r] \<Rightarrow> (Inr r, b1\<lparr>servicenow_credentials := rows\<rparr>)
                    | _ \<Rightarrow> (Inl (Fails no_single_row), b1))))"

text \<open>\<open>from("servicenow_credentials").delete().eq("id", id).eq("user_id", userId)\<close>.\<close>

definition delete_credential :: "string \<Rightarrow> string \<Rightarrow> backend \<Rightarrow> (fault + unit) \<times> backend" where
  "delete_credential cid userId b =
     (case db_call b of
        (Some f, b1) \<Rightarrow> (Inl f, b1)
      | (None, b1) \<Rightarrow>
          (Inr (),
           b1\<lparr>servicenow_credentials :=
                 filter (\<lambda>r. \<not> (sn_id r = cid \<and> sn_user_id r = userId)) (servicenow_credentials b1)\<rparr>))"

text \<open>\<open>from("servicenow_credentials").select("*").eq("user_id", userId)\<close>.\<close>

definition select_credentials ::
  "string \<Rightarrow> backend \<Rightarrow> (fault + ServiceNowCredential list) \<times> backend" where
  "select_credentials userId b =
     (case db_call b of
        (Some f, b1) \<Rightarrow> (Inl f, b1)
      | (None, b1) \<Rightarrow> (Inr (filter (\<lambda>r. sn_user_id r = userId) (servicenow_credentials b1)), b1))"

text \<open>\<open>from("servicenow_credentials").select("*").eq("id", id).single()\<close>.\<close>

definition select_credential :: "string \<Rightarrow> backend \<Rightarrow> (fault + ServiceNowCredential) \<times> backend" where
  "select_credential cid b =
     (case db_call b of
        (Some f, b1) \<Rightarrow> (Inl f, b1)
      | (None, b1) \<Rightarrow>
          (case filter (\<lambda>r. sn_id r = cid) (servicenow_credentials b1) of
             [r] \<Rightarrow> (Inr r, b1)
           | _ \<Rightarrow> (Inl (Fails no_single_row), b1)))"

text \<open>
  The \<open>INSERT\<close> both insertion paths run (the function \<open>insert_servicenow_credential\<close> of
  create\_servicenow\_table.sql, and \<open>insert({...}).select().single()\<close>): the row gets a
  generated id and \<open>now()\<close> as \<open>created_at\<close>; primary key and \<open>UNIQUE(user_id, name)\<close>
  must hold.
\<close>

definition insert_credential ::
  "string \<Rightarrow> string \<Rightarrow> string \<Rightarrow> string \<Rightarrow> string \<Rightarrow> backend
     \<Rightarrow> (fault + ServiceNowCredential) \<times> backend" where
  "insert_credential userId name instanceUrl uname pw b =
     (case db_call b of
        (Some f, b1) \<Rightarrow> (Inl f, b1)
      | (None, b1) \<Rightarrow>
          (let (ids, b2) = generate_ids 1 b1;
               (created, b3) = db_now b2;
               row = \<lparr> sn_id = hd ids, sn_user_id = userId, sn_name = name,
                       sn_instance_url = instanceUrl, sn_username = uname, sn_password = pw,
                       sn_created_at = created \<rparr>
           in if sn_id row \<in> set (map sn_id (servicenow_credentials b3))
                 \<or> \<not> names_unique (servicenow_credentials b3 @ [row])
              then (Inl (Fails duplicate_key), b3)
              else (Inr row, b3\<lparr>servicenow_credentials := servicenow_credentials b3 @ [row]\<rparr>)))"

text \<open>
  \<open>createServiceNowCredentialsTable\<close>: one call of the function
  \<open>create_servicenow_credentials_table\<close>, which creates the table if it is missing (in the
  model it is there). An \<open>error\<close> member is logged; only a rejected call is thrown on.
\<close>

definition createServiceNowCredentialsTable :: "backend \<Rightarrow> (store_thrown + bool) \<times> backend" where
  "createServiceNowCredentialsTable b =
     (case db_call b of
        (Some (Rejects m), b1) \<Rightarrow> (Inl (Exception m), b1)
      | (Some (Fails e), b1) \<Rightarrow> (Inr True, b1)
      | (None, b1) \<Rightarrow> (Inr True, b1))"

text \<open>\<open>supabase.auth.getUser()\<close>: the \<open>user\<close> of its \<open>data\<close>, \<open>null\<close> on an error.\<close>

definition getUser :: "backend \<Rightarrow> (store_thrown + string option) \<times> backend" where
  "getUser b =
     (case db_call b of
        (Some (Rejects m), b1) \<Rightarrow> (Inl (Exception m), b1)
      | (Some (Fails e), b1) \<Rightarrow> (Inr None, b1)
      | (None, b1) \<Rightarrow> (Inr (auth_user b1), b1))"

text \<open>The direct insert of \<open>saveServiceNowCredential\<close>, with its handling of an error.\<close>

definition direct_insert ::
  "string \<Rightarrow> string \<Rightarrow> string \<Rightarrow> string \<Rightarrow> string \<Rightarrow> backend
     \<Rightarrow> (store_thrown + ServiceNowCredential) \<times> backend" where
  "direct_insert userId name instanceUrl uname pw b =
     (case insert_credential userId name instanceUrl uname pw b of
        (Inl (Rejects m), b1) \<Rightarrow> (Inl (Exception m), b1)
      | (Inl (Fails error), b1) \<Rightarrow>
          if err_message error \<noteq> [] \<and> str_includes (err_message error) ''row-level security policy''
          then (case getUser b1 of
                  (Inl t, b2) \<Rightarrow> (Inl t, b2)
                | (Inr None, b2) \<Rightarrow> (Inl (Postgrest error), b2)
                | (Inr (Some uid), b2) \<Rightarrow>
                    if uid \<noteq> userId
                    then (Inl (Exception
                            ''User ID mismatch: The provided user ID does not match the authenticated user ID''),
                          b2)
                    else (Inl (Postgrest error), b2))
          else (Inl (Postgrest error), b1)
      | (Inr data, b1) \<Rightarrow> (Inr data, b1))"

text \<open>
  The inner \<open>try\<close> of \<open>saveServiceNowCredential\<close>: the insertion through the function,
  then the reading of the inserted row. \<open>None\<close>: go on to the direct insert.
\<close>

definition rpc_insert ::
  "string \<Rightarrow> string \<Rightarrow> string \<Rightarrow> string \<Rightarrow> string \<Rightarrow> backend
     \<Rightarrow> ServiceNowCredential option \<times> backend" where
  "rpc_insert userId name instanceUrl uname pw b =
     (case insert_credential userId name instanceUrl uname pw b of
        (Inl f, b1) \<Rightarrow> (None, b1)
      | (Inr inserted, b1) \<Rightarrow>
          (case select_credential (sn_id inserted) b1 of
             (Inl f, b2) \<Rightarrow> (None, b2)
           | (Inr fetchedData, b2) \<Rightarrow> (Some fetchedData, b2)))"

definition saveServiceNowCredential ::
  "string \<Rightarrow> string \<Rightarrow> string \<Rightarrow> string \<Rightarrow> string \<Rightarrow> backend
     \<Rightarrow> (store_thrown + ServiceNowCredential) \<times> backend" where
  "saveServiceNowCredential userId name instanceUrl uname pw b =
     (let (checked, b1) =
            (case db_call b of
               (Some (Rejects m), b') \<Rightarrow> (Inl (Exception m), b')
             | (Some (Fails tableCheckError), b') \<Rightarrow>
                 if err_code tableCheckError = ''PGRST116''
                 then createServiceNowCredentialsTable b'
                 else (Inl (Postgrest tableCheckError), b')
             | (None, b') \<Rightarrow> (Inr True, b'))
      in case checked of
           Inl t \<Rightarrow> (Inl t, b1)
         | Inr u \<Rightarrow>
             (case rpc_insert userId name instanceUrl uname pw b1 of
                (Some fetchedData, b2) \<Rightarrow> (Inr fetchedData, b2)
              | (None, b2) \<Rightarrow> direct_insert userId name instanceUrl uname pw b2))"

definition getServiceNowCredentials ::
  "string \<Rightarrow> backend \<Rightarrow> (store_thrown + ServiceNowCredential list) \<times> backend" where
  "getServiceNowCredentials userId b =
     (case select_credentials userId b of
        (Inl f, b1) \<Rightarrow> (Inl (throw_of f), b1)
      | (Inr data, b1) \<Rightarrow> (Inr data, b1))"

definition deleteServiceNowCredential ::
  "string \<Rightarrow> string \<Rightarrow> backend \<Rightarrow> (store_thrown + unit) \<times> backend" where
  "deleteServiceNowCredential cid userId b =
     (case delete_credential cid userId b of
        (Inl f, b1) \<Rightarrow> (Inl (throw_of f), b1)
      | (Inr u, b1) \<Rightarrow> (Inr (), b1))"

definition updateServiceNowCredential ::
  "string \<Rightarrow> string \<Rightarrow> credential_updates \<Rightarrow> backend
     \<Rightarrow> (store_thrown + ServiceNowCredential) \<times> backend" where
  "updateServiceNowCredential cid userId updates b =
     (case update_credential cid userId updates b of
        (Inl f, b1) \<Rightarrow> (Inl (throw_of f), b1)
      | (Inr data, b1) \<Rightarrow> (Inr data, b1))"

subsection \<open>The settings component: handleUpdateCredential\<close>

text \<open>
  The edit form's values. The handler returns at once without a signed-in user; it puts
  the password into the updates only when it is not empty. The page reload after the update
  and the alert in the \<open>catch\<close> do not touch the store.
\<close>

record credential_form =
  form_name :: string
  form_instanceUrl :: string
  form_username :: string
  form_password :: string

definition form_updates :: "credential_form \<Rightarrow> credential_updates" where
  "form_updates credential =
     \<lparr> upd_name = Some (form_name credential),
       upd_instance_url = Some (form_instanceUrl credential),
       upd_username = Some (form_username credential),
       upd_password = (if form_password credential \<noteq> [] then Some (form_password credential)
                       else None) \<rparr>"

definition handleUpdateCredential ::
  "string option \<Rightarrow> string \<Rightarrow> credential_form \<Rightarrow> backend \<Rightarrow> backend" where
  "handleUpdateCredential user cid credential b =
     (case user of
        None \<Rightarrow> b
      | Some uid \<Rightarrow> snd (updateServiceNowCredential cid uid (form_updates credential) b))"

subsection \<open>Concrete stores\<close>

definition cred_backend :: backend where
  "cred_backend =
     example_backend\<lparr>servicenow_credentials :=
       [example_credential, example_credential\<lparr>sn_id := ''cred-2'', sn_name := ''prod''\<rparr>]\<rparr>"

definition rename_only :: credential_updates where
  "rename_only = \<lparr> upd_name = Some ''New'', upd_instance_url = None, upd_username = None,
                   upd_password = None \<rparr>"

definition renamed :: "(store_thrown + ServiceNowCredential) \<times> backend" where
  "renamed = updateServiceNowCredential ''cred-1'' ''user-1'' rename_only cred_backend"

definition edit_form :: credential_form where
  "edit_form = \<lparr> form_name = ''New'', form_instanceUrl = ''https://new.service-now.com'',
                 form_username = ''admin2'', form_password = [] \<rparr>"

definition permission_denied :: db_error where
  "permission_denied = \<lparr> err_code = ''42501'', err_message = ''permission denied'' \<rparr>"

text \<open>A backend every call to which fails.\<close>

definition failing_backend :: backend where
  "failing_backend = cred_backend\<lparr>faults := (\<lambda>i. Some (Fails permission_denied))\<rparr>"

definition saved_credential :: "(store_thrown + ServiceNowCredential) \<times> backend" where
  "saved_credential =
     saveServiceNowCredential ''user-1'' ''test'' ''https://test.service-now.com'' ''tester'' ''secret''
       example_backend"

definition deleted :: "(store_thrown + unit) \<times> backend" where
  "deleted = deleteServiceNowCredential ''cred-1'' ''user-1'' cred_backend"

section \<open>config/supabase.ts: the fetch wrapper of the Supabase client\<close>

text \<open>
  The \<open>options\<close> the Supabase client passes to its \<open>fetch\<close>. The wrapper creates an
  \<open>AbortController\<close>, starts a timer of 15000 ms that aborts it, and calls \<open>fetch\<close> with
  the options and the controller's signal; it hands on the response, or throws on what
  \<open>fetch\<close> rejected with. (lib/profile.ts configures its client with the same wrapper.)
  The passing of time is outside the model: the signal is recorded with the delay of its
  timer.
\<close>

record request_init =
  init_method :: "string option"
  init_headers :: "(string \<times> string) list"
  init_body :: "string option"
  init_signal :: "nat option"

definition supabase_fetch ::
  "string \<Rightarrow> request_init \<Rightarrow> world \<Rightarrow> (thrown + http_response) \<times> world" where
  "supabase_fetch u options w =
     (let timeout = 15000;
          (outcome, w1) =
            fetch \<lparr> url = u,
                    http_method = (case init_method options of None \<Rightarrow> ''GET'' | Some m \<Rightarrow> m),
                    headers = init_headers options, body = init_body options,
                    signal = Some timeout \<rparr> w
      in case outcome of
           Inl m \<Rightarrow> (Inl (Js_error m), w1)
         | Inr response \<Rightarrow> (Inr response, w1))"

definition select_init :: request_init where
  "select_init = \<lparr> init_method = None, init_headers = [(''apikey'', ''anon-key'')],
                   init_body = None, init_signal = None \<rparr>"

section \<open>Properties of the ServiceNow API client\<close>

subsection \<open>Auxiliary facts\<close>

lemma b64_encode_nonempty: "xs \<noteq> [] \<Longrightarrow> b64_encode xs \<noteq> []"
  by (cases xs rule: b64_encode.cases) simp_all

lemma btoa_nonempty: "s \<noteq> [] \<Longrightarrow> btoa s \<noteq> []"
  by (simp add: btoa_def b64_encode_nonempty)

lemma authenticate_try_cases:
  assumes "authenticate_try c w = (r, c', w')"
  shows "(r = Inr () \<and> c' = c \<and> sent w' = sent w \<and> (\<exists>t. accessToken c = Some t \<and> t \<noteq> [])
           \<and> clock w (reads w) < tokenExpiry c)
       \<or> (r \<noteq> Inr () \<and> c' = c \<and> sent w' = sent w \<and> (username c = [] \<or> password c = []))
       \<or> (\<exists>now req. c' = c\<lparr>accessToken := Some (btoa (username c @ '':'' @ password c)),
                                tokenExpiry := now + 3600000\<rparr>
             \<and> sent w' = sent w @ [req] \<and> url req = verification_url c \<and> signal req = None
             \<and> username c \<noteq> [] \<and> password c \<noteq> [])"
  using assms
  by (auto simp: authenticate_try_def verification_url_def Let_def Date_now_def fetch_def
           split: option.splits sum.splits if_splits prod.splits)

lemma authenticate_cases:
  assumes "authenticate c w = (r, c', w')"
  shows "(r = Inr () \<and> c' = c \<and> sent w' = sent w \<and> (\<exists>t. accessToken c = Some t \<and> t \<noteq> [])
           \<and> clock w (reads w) < tokenExpiry c)
       \<or> (r \<noteq> Inr () \<and> c' = c \<and> sent w' = sent w \<and> (username c = [] \<or> password c = []))
       \<or> (\<exists>now req. c' = c\<lparr>accessToken := Some (btoa (username c @ '':'' @ password c)),
                                tokenExpiry := now + 3600000\<rparr>
             \<and> sent w' = sent w @ [req] \<and> url req = verification_url c \<and> signal req = None
             \<and> username c \<noteq> [] \<and> password c \<noteq> [])"
proof -
  obtain r0 where "authenticate_try c w = (r0, c', w')" and "r = Inr () \<longleftrightarrow> r0 = Inr ()"
    using assms by (auto simp: authenticate_def split: prod.splits sum.splits)
  then show ?thesis using authenticate_try_cases[of c w r0 c' w'] by auto
qed

lemma authenticate_same_identity:
  "authenticate c w = (r, c', w') \<Longrightarrow> same_identity c c'"
  using authenticate_cases[of c w r c' w'] by (auto simp: same_identity_def)

lemma authenticate_sent:
  "authenticate c w = (r, c', w') \<Longrightarrow>
     \<exists>new. sent w' = sent w @ new \<and> length new \<le> 1
           \<and> (\<forall>req \<in> set new. url req = verification_url c \<and> signal req = None)"
  using authenticate_cases[of c w r c' w'] by auto

lemma authenticate_cached:
  assumes "accessToken c = Some t" "t \<noteq> []" "clock w (reads w) < tokenExpiry c"
  shows "authenticate c w = (Inr (), c, w\<lparr>reads := Suc (reads w)\<rparr>)"
  using assms by (simp add: authenticate_def authenticate_try_def Date_now_def)

lemma authenticate_token:
  assumes "authenticate c w = (r, c', w')" "username c \<noteq> []" "password c \<noteq> []"
  shows "\<exists>t. accessToken c' = Some t \<and> t \<noteq> []"
  using authenticate_cases[OF assms(1)] assms(2,3) btoa_nonempty[of "username c @ '':'' @ password c"]
  by auto

lemma request_try_sent:
  "request_try u hs options w = (r, w') \<Longrightarrow>
     \<exists>req. sent w' = sent w @ [req] \<and> url req = u \<and> headers req = hs
           \<and> body req = opt_body options \<and> signal req = None"
  by (auto simp: request_try_def fetch_def Let_def split: sum.splits if_splits)

lemma same_identity_trans:
  "same_identity a b \<Longrightarrow> same_identity b c \<Longrightarrow> same_identity a c"
  by (simp add: same_identity_def)

lemma same_identity_reset: "same_identity c (c\<lparr>accessToken := x, tokenExpiry := y\<rparr>)"
  by (simp add: same_identity_def)

lemma request_same_identity:
  "request fuel endpoint options c w = Some (r, c', w') \<Longrightarrow> same_identity c c'"
proof (induction fuel arbitrary: c w)
  case 0
  then show ?case by simp
next
  case (Suc fuel)
  obtain ra c1 w1 where a: "authenticate c w = (ra, c1, w1)" by (metis prod_cases3)
  have s1: "same_identity c c1" using authenticate_same_identity[OF a] .
  show ?case
  proof (cases ra)
    case (Inl e)
    with Suc.prems a show ?thesis using s1 by simp
  next
    case (Inr u)
    obtain rt w2 where t: "request_try (request_url c1 endpoint) (request_headers c1) options w1 = (rt, w2)"
      by (metis surj_pair)
    show ?thesis
    proof (cases rt)
      case (Inr v)
      with Suc.prems a \<open>ra = Inr u\<close> t show ?thesis using s1 by simp
    next
      case (Inl e)
      show ?thesis
      proof (cases "error_status e = Some 401")
        case True
        with Suc.prems a \<open>ra = Inr u\<close> t Inl
        have "request fuel endpoint options (c1\<lparr>accessToken := None, tokenExpiry := 0\<rparr>) w2 = Some (r, c', w')"
          by simp
        from Suc.IH[OF this] have "same_identity (c1\<lparr>accessToken := None, tokenExpiry := 0\<rparr>) c'" .
        then show ?thesis using s1 by (simp add: same_identity_def)
      next
        case False
        with Suc.prems a \<open>ra = Inr u\<close> t Inl show ?thesis using s1 by simp
      qed
    qed
  qed
qed

lemma request_no_401:
  "request fuel endpoint options c w = Some (Inl error, c', w') \<Longrightarrow> error_status error \<noteq> Some 401"
proof (induction fuel arbitrary: c w)
  case 0
  then show ?case by simp
next
  case (Suc fuel)
  obtain ra c1 w1 where a: "authenticate c w = (ra, c1, w1)" by (metis prod_cases3)
  show ?case
  proof (cases ra)
    case (Inl e)
    then have "\<exists>m. e = Js_error m" using a
      by (auto simp: authenticate_def split: prod.splits sum.splits)
    with Suc.prems a Inl show ?thesis by auto
  next
    case (Inr u)
    obtain rt w2 where t: "request_try (request_url c1 endpoint) (request_headers c1) options w1 = (rt, w2)"
      by (metis surj_pair)
    show ?thesis
    proof (cases rt)
      case (Inr v)
      with Suc.prems a \<open>ra = Inr u\<close> t show ?thesis by simp
    next
      case (Inl e)
      show ?thesis
      proof (cases "error_status e = Some 401")
        case True
        with Suc.prems a \<open>ra = Inr u\<close> t Inl
        have "request fuel endpoint options (c1\<lparr>accessToken := None, tokenExpiry := 0\<rparr>) w2 = Some (Inl error, c', w')"
          by simp
        from Suc.IH[OF this] show ?thesis .
      next
        case False
        with Suc.prems a \<open>ra = Inr u\<close> t Inl show ?thesis by auto
      qed
    qed
  qed
qed

lemma retry_state_request:
  "retry_state k endpoint options c w = Some (c', w') \<Longrightarrow>
     request (k + n) endpoint options c w = request n endpoint options c' w'"
proof (induction k arbitrary: c w)
  case 0
  then show ?case by simp
next
  case (Suc k)
  then show ?case
    by (auto split: prod.splits sum.splits if_splits)
qed

lemma retry_state_cleared:
  "retry_state k endpoint options c w = Some (c', w') \<Longrightarrow> 0 < k \<Longrightarrow>
     accessToken c' = None \<and> tokenExpiry c' = 0"
proof (induction k arbitrary: c w)
  case 0
  then show ?case by simp
next
  case (Suc k)
  show ?case
  proof (cases k)
    case 0
    with Suc.prems show ?thesis by (auto split: prod.splits sum.splits if_splits)
  next
    case (Suc j)
    with Suc.prems Suc.IH show ?thesis by (auto split: prod.splits sum.splits if_splits)
  qed
qed

lemma request_url_cong: "baseUrl c' = baseUrl c \<Longrightarrow> request_url c' endpoint = request_url c endpoint"
  by (simp add: request_url_def)

lemma verification_url_cong: "baseUrl c' = baseUrl c \<Longrightarrow> verification_url c' = verification_url c"
  by (simp add: verification_url_def)

lemma request_sent:
  "request fuel endpoint options c w = Some (r, c', w') \<Longrightarrow>
     \<exists>new. sent w' = sent w @ new
        \<and> (\<forall>req \<in> set new. (url req = request_url c endpoint \<or> url req = verification_url c)
                              \<and> signal req = None)"
proof (induction fuel arbitrary: c w)
  case 0
  then show ?case by simp
next
  case (Suc fuel)
  obtain ra c1 w1 where a: "authenticate c w = (ra, c1, w1)" by (metis prod_cases3)
  obtain new1 where n1: "sent w1 = sent w @ new1"
      "\<forall>req \<in> set new1. url req = verification_url c \<and> signal req = None"
    using authenticate_sent[OF a] by blast
  have b: "baseUrl c1 = baseUrl c" using authenticate_same_identity[OF a] by (simp add: same_identity_def)
  show ?case
  proof (cases ra)
    case (Inl e)
    with Suc.prems a have "w' = w1" by simp
    with n1 show ?thesis by auto
  next
    case (Inr u)
    obtain rt w2 where t: "request_try (request_url c1 endpoint) (request_headers c1) options w1 = (rt, w2)"
      by (metis surj_pair)
    obtain req2 where n2: "sent w2 = sent w1 @ [req2]" "url req2 = request_url c endpoint" "signal req2 = None"
      using request_try_sent[OF t] request_url_cong[OF b] by auto
    show ?thesis
    proof (cases rt)
      case (Inr v)
      with Suc.prems a \<open>ra = Inr u\<close> t have "w' = w2" by simp
      with n1 n2 show ?thesis by auto
    next
      case (Inl e)
      show ?thesis
      proof (cases "error_status e = Some 401")
        case True
        let ?c = "c1\<lparr>accessToken := None, tokenExpiry := 0\<rparr>"
        from True Suc.prems a \<open>ra = Inr u\<close> t Inl
        have "request fuel endpoint options ?c w2 = Some (r, c', w')" by simp
        from Suc.IH[OF this] obtain new3 where n3: "sent w' = sent w2 @ new3"
          "\<forall>req \<in> set new3. (url req = request_url ?c endpoint \<or> url req = verification_url ?c)
                              \<and> signal req = None" by blast
        have "request_url ?c endpoint = request_url c endpoint" "verification_url ?c = verification_url c"
          using b by (simp_all add: request_url_def verification_url_def)
        with n3 have n3': "\<forall>req \<in> set new3. (url req = request_url c endpoint \<or> url req = verification_url c)
                              \<and> signal req = None" by simp
        have "sent w' = sent w @ (new1 @ [req2] @ new3)" using n1 n2 n3 by simp
        moreover have "\<forall>req \<in> set (new1 @ [req2] @ new3).
            (url req = request_url c endpoint \<or> url req = verification_url c) \<and> signal req = None"
          using n1 n2 n3' by auto
        ultimately show ?thesis by blast
      next
        case False
        with Suc.prems a \<open>ra = Inr u\<close> t Inl have "w' = w2" by simp
        with n1 n2 show ?thesis by auto
      qed
    qed
  qed
qed

lemma return_result_state:
  "return_result prefix outcome = Some (r, c', w') \<Longrightarrow> \<exists>r0. outcome = Some (r0, c', w')"
  by (auto simp: return_result_def split: option.splits prod.splits sum.splits)

lemma state_after_same_identity:
  "state_after fuel operation c w = Some (c', w') \<Longrightarrow> same_identity c c'"
proof (cases operation)
  case Authenticate
  assume "state_after fuel operation c w = Some (c', w')"
  with Authenticate have "authenticate c w = (fst (authenticate c w), c', w')"
    by (metis option.inject prod.collapse state_after.simps(1))
  then show ?thesis by (rule authenticate_same_identity)
next
  case (Request endpoint options)
  assume "state_after fuel operation c w = Some (c', w')"
  with Request show ?thesis by (auto dest: request_same_identity)
next
  case (QueryRecords options)
  assume "state_after fuel operation c w = Some (c', w')"
  with QueryRecords show ?thesis
    by (auto simp: queryRecords_def dest!: return_result_state dest: request_same_identity)
next
  case (GetRecord table sysId fieldNames)
  assume "state_after fuel operation c w = Some (c', w')"
  with GetRecord show ?thesis
    by (auto simp: getRecord_def dest!: return_result_state dest: request_same_identity)
next
  case (CreateRecord table data)
  assume "state_after fuel operation c w = Some (c', w')"
  with CreateRecord show ?thesis
    by (auto simp: createRecord_def dest!: return_result_state dest: request_same_identity)
next
  case (UpdateRecord table sysId data)
  assume "state_after fuel operation c w = Some (c', w')"
  with UpdateRecord show ?thesis
    by (auto simp: updateRecord_def dest!: return_result_state dest: request_same_identity)
next
  case (DeleteRecord table sysId)
  assume "state_after fuel operation c w = Some (c', w')"
  with DeleteRecord show ?thesis
    by (auto simp: deleteRecord_def split: option.splits prod.splits sum.splits dest: request_same_identity)
next
  case (ExecuteScript script)
  assume "state_after fuel operation c w = Some (c', w')"
  with ExecuteScript show ?thesis
    by (auto simp: executeScript_def dest!: return_result_state dest: request_same_identity)
next
  case TestConnection
  assume s: "state_after fuel operation c w = Some (c', w')"
  obtain ra c1 w1 where a: "authenticate c w = (ra, c1, w1)" by (metis prod_cases3)
  have s1: "same_identity c c1" using authenticate_same_identity[OF a] .
  from s TestConnection a show ?thesis using s1
    by (auto simp: testConnection_def split: option.splits prod.splits sum.splits
             dest!: request_same_identity intro: same_identity_trans)
qed

lemma constructor_baseUrl:
  "endsWith (baseUrl (ServiceNowAPI credential)) ''/''"
  by (auto simp: ServiceNowAPI_def endsWith_def)

subsection \<open>Claims about the client\<close>

text \<open>
  C4. For a client whose username and password are non-empty, a second call of
  \<open>authenticate\<close> that reads the clock before the recorded expiry instant succeeds from
  the cached token: it sends nothing and leaves the client as the first call left it, so
  the two calls together issue at most one verification request.
\<close>

theorem authenticate_twice:
  assumes "username c \<noteq> []" and "password c \<noteq> []"
    and "authenticate c w = (r1, c1, w1)"
    and "clock w1 (reads w1) < tokenExpiry c1"
    and "authenticate c1 w1 = (r2, c2, w2)"
  shows "r2 = Inr () \<and> c2 = c1 \<and> sent w2 = sent w1 \<and> length (sent w2) \<le> Suc (length (sent w))"
proof -
  obtain t where t: "accessToken c1 = Some t" "t \<noteq> []"
    using authenticate_token[OF assms(3) assms(1) assms(2)] by blast
  have "authenticate c1 w1 = (Inr (), c1, w1\<lparr>reads := Suc (reads w1)\<rparr>)"
    using authenticate_cached[OF t assms(4)] .
  with assms(5) have "r2 = Inr ()" "c2 = c1" "sent w2 = sent w1" by auto
  moreover have "length (sent w1) \<le> Suc (length (sent w))"
    using authenticate_sent[OF assms(3)] by auto
  ultimately show ?thesis by simp
qed

theorem authenticate_twice_witness:
  "username example_client \<noteq> [] \<and> password example_client \<noteq> []
   \<and> clock (snd (snd first_call)) (reads (snd (snd first_call))) < tokenExpiry (fst (snd first_call))
   \<and> fst second_call = Inr ()
   \<and> fst (snd second_call) = fst (snd first_call)
   \<and> sent (snd (snd second_call)) = sent (snd (snd first_call))
   \<and> length (sent (snd (snd second_call))) \<le> Suc (length (sent all_ok_world))"
proof -
  have h1: "username example_client \<noteq> []" and h2: "password example_client \<noteq> []"
    by (simp_all add: example_client_def ServiceNowAPI_def example_credential_def)
  have h3: "authenticate example_client all_ok_world
              = (fst first_call, fst (snd first_call), snd (snd first_call))"
    by (simp add: first_call_def)
  have h4: "clock (snd (snd first_call)) (reads (snd (snd first_call)))
              < tokenExpiry (fst (snd first_call))"
    by code_simp
  have h5: "authenticate (fst (snd first_call)) (snd (snd first_call))
              = (fst second_call, fst (snd second_call), snd (snd second_call))"
    by (simp add: second_call_def)
  show ?thesis using h1 h2 h4 authenticate_twice[OF h1 h2 h3 h4 h5] by blast
qed

text \<open>
  C1 (as amended). \<open>request\<close> retries after every error of status 401, not only after the
  first: once \<open>k\<close> passes in a row have ended in such an error, the call goes on as a
  fresh call from the state the \<open>k\<close>-th pass left, with token and expiry cleared; and
  whatever error a call of \<open>request\<close> throws, its status is not 401.
\<close>

theorem request_retries_every_401:
  "(retry_state k endpoint options c w = Some (c', w') \<longrightarrow>
      request (k + n) endpoint options c w = request n endpoint options c' w'
      \<and> (0 < k \<longrightarrow> accessToken c' = None \<and> tokenExpiry c' = 0))
   \<and> (request fuel endpoint options c w = Some (Inl error, c'', w'') \<longrightarrow>
        error_status error \<noteq> Some 401)"
proof (intro conjI impI)
  assume "retry_state k endpoint options c w = Some (c', w')"
  then show "request (k + n) endpoint options c w = request n endpoint options c' w'"
    by (rule retry_state_request)
next
  assume "retry_state k endpoint options c w = Some (c', w')" and "0 < k"
  then show "accessToken c' = None" and "tokenExpiry c' = 0"
    using retry_state_cleared by blast+
next
  assume "request fuel endpoint options c w = Some (Inl error, c'', w'')"
  then show "error_status error \<noteq> Some 401"
    by (rule request_no_401)
qed

theorem request_retries_every_401_witness:
  "retry_state 3 ''v1/script/execute'' script_options example_client three_401_world \<noteq> None
   \<and> request (3 + 1) ''v1/script/execute'' script_options example_client three_401_world
       = request 1 ''v1/script/execute'' script_options
           (fst (the (retry_state 3 ''v1/script/execute'' script_options example_client three_401_world)))
           (snd (the (retry_state 3 ''v1/script/execute'' script_options example_client three_401_world)))
   \<and> accessToken
         (fst (the (retry_state 3 ''v1/script/execute'' script_options example_client three_401_world)))
       = None
   \<and> map_option fst (request 5 ''v1/script/execute'' script_options example_client server_error_world)
       = Some (Inl (Status_error 500 (JStr ''Internal Server Error'') None))
   \<and> error_status (Status_error 500 (JStr ''Internal Server Error'') None) \<noteq> Some 401"
proof -
  have h1: "retry_state 3 ''v1/script/execute'' script_options example_client three_401_world \<noteq> None"
    by code_simp
  then obtain c3 w3 where
    s: "retry_state 3 ''v1/script/execute'' script_options example_client three_401_world = Some (c3, w3)"
    by auto
  have h2: "map_option fst (request 5 ''v1/script/execute'' script_options example_client server_error_world)
              = Some (Inl (Status_error 500 (JStr ''Internal Server Error'') None))"
    by code_simp
  then obtain c5 w5 where
    r: "request 5 ''v1/script/execute'' script_options example_client server_error_world
          = Some (Inl (Status_error 500 (JStr ''Internal Server Error'') None), c5, w5)"
    by auto
  note a = request_retries_every_401
         [where k = 3 and endpoint = "''v1/script/execute''" and options = script_options
            and c = example_client and w = three_401_world and c' = c3 and w' = w3 and n = 1]
  note b = request_retries_every_401
         [where fuel = 5 and endpoint = "''v1/script/execute''" and options = script_options
            and c = example_client and w = server_error_world
            and error = "Status_error 500 (JStr ''Internal Server Error'') None" and c'' = c5 and w'' = w5]
  show ?thesis using a b h1 h2 s r by simp
qed

theorem one_retry_counterexample:
  "map_option fst (executeScript 10 ''gs.info(1)'' example_client three_401_world)
     = Some (Inr (Some (JStr ''done'')))
   \<and> map_option (\<lambda>(r, c, w). map http_method (sent w))
        (executeScript 10 ''gs.info(1)'' example_client three_401_world)
     = Some [''GET'', ''POST'', ''GET'', ''POST'', ''GET'', ''POST'', ''GET'', ''POST'']
   \<and> map_option fst (executeScript 10 ''gs.info(1)'' example_client one_401_world)
     = Some (Inl (Js_error ''Failed to execute script: body stream already read''))
   \<and> map_option (\<lambda>(r, c, w). map http_method (sent w))
        (executeScript 10 ''gs.info(1)'' example_client one_401_world)
     = Some [''GET'', ''POST'']"
  by code_simp

text \<open>
  C2. The code at a credential whose verification request is answered with 401:
  \<open>authenticate\<close> throws, and the client keeps the token and an expiry one hour ahead;
  the next call of \<open>authenticate\<close> succeeds from the cache and sends no verification
  request.
\<close>

theorem failed_verification_keeps_token:
  "fst rejected_first
     = Inl (Js_error ''Failed to authenticate with ServiceNow: Basic auth test failed: 401 denied'')
   \<and> accessToken (fst (snd rejected_first)) = Some ''YWRtaW46cHc=''
   \<and> tokenExpiry (fst (snd rejected_first)) = 1700003600000
   \<and> length (sent (snd (snd rejected_first))) = 1
   \<and> fst rejected_second = Inr ()
   \<and> fst (snd rejected_second) = fst (snd rejected_first)
   \<and> sent (snd (snd rejected_second)) = sent (snd (snd rejected_first))"
  by code_simp

text \<open>
  C3. The code at a 403 response whose body is the JSON text of an error object: the inner
  \<open>try\<close> builds and throws \<open>{status, message, detail}\<close>, its own \<open>catch\<close> takes that
  over, and the caller gets \<open>{status, message: body text}\<close> without \<open>detail\<close>, or the
  rejection of the second read of the body.
\<close>

theorem structured_error_is_replaced:
  "snd (not_ok_try (json_response 403 ''Forbidden'' forbidden_body True))
     = Status_error 403 (JStr ''Insufficient rights: ACL restricts the record'')
         (Some (JStr ''ACL restricts the record''))
   \<and> map_option fst (request 5 ''table/incident'' no_options example_client (forbidden_world True))
     = Some (Inl (Status_error 403 (JStr (JSON_stringify forbidden_body)) None))
   \<and> map_option fst (request 5 ''table/incident'' no_options example_client (forbidden_world False))
     = Some (Inl (Js_error ''body stream already read''))"
  by code_simp

text \<open>
  C5. The code at a script, on a fresh client whose requests all succeed: one verification
  request, then one POST with the body \<open>{"script": ...}\<close>, sent to
  \<open>api/now/v2/v1/script/execute\<close> under the instance; the \<open>result\<close> of the response
  is returned.
\<close>

theorem executeScript_request:
  "map_option fst (executeScript 5 ''gs.info(1)'' example_client script_world)
     = Some (Inr (Some (JStr ''done'')))
   \<and> map_option (\<lambda>(r, c, w). map (\<lambda>q. (http_method q, url q, body q)) (sent w))
        (executeScript 5 ''gs.info(1)'' example_client script_world)
     = Some [(''GET'', ''https://dev.service-now.com/api/now/v2/table/sys_user?sysparm_limit=1'', None),
             (''POST'', ''https://dev.service-now.com/api/now/v2/v1/script/execute'',
              Some (JSON_stringify (JObj [(''script'', JStr ''gs.info(1)'')])))]"
  by code_simp

text \<open>
  C10. The constructor stores the instance URL with a final \<open>/\<close>, added only when it is
  missing. No operation changes \<open>baseUrl\<close>, \<open>username\<close>, \<open>password\<close> or
  \<open>credentialId\<close>. Every request that \<open>request\<close> sends for a relative endpoint goes
  to \<open>baseUrl\<close> followed by \<open>api/now/v2/\<close> and the endpoint, or is the verification request
  of \<open>authenticate\<close>, which has the same form.
\<close>

theorem client_fields_and_urls:
  "baseUrl (ServiceNowAPI credential)
     = (if endsWith (sn_instance_url credential) ''/'' then sn_instance_url credential
        else sn_instance_url credential @ ''/'')
   \<and> endsWith (baseUrl (ServiceNowAPI credential)) ''/''
   \<and> (state_after fuel operation c w = Some (c', w') \<longrightarrow> same_identity c c')
   \<and> (request fuel endpoint options c w = Some (r, c'', w'') \<and> \<not> startsWith endpoint ''http'' \<longrightarrow>
        (\<exists>new. sent w'' = sent w @ new
           \<and> (\<forall>req \<in> set new.
                 url req = baseUrl c @ ''api/now/v2/'' @ endpoint
                 \<or> url req = baseUrl c @ ''api/now/v2/'' @ ''table/sys_user?sysparm_limit=1'')))"
proof (intro conjI impI)
  show "baseUrl (ServiceNowAPI credential)
     = (if endsWith (sn_instance_url credential) ''/'' then sn_instance_url credential
        else sn_instance_url credential @ ''/'')"
    by (simp add: ServiceNowAPI_def)
  show "endsWith (baseUrl (ServiceNowAPI credential)) ''/''"
    by (rule constructor_baseUrl)
next
  assume "state_after fuel operation c w = Some (c', w')"
  then show "same_identity c c'" by (rule state_after_same_identity)
next
  assume a: "request fuel endpoint options c w = Some (r, c'', w'') \<and> \<not> startsWith endpoint ''http''"
  then obtain new where n: "sent w'' = sent w @ new"
      "\<forall>req \<in> set new. (url req = request_url c endpoint \<or> url req = verification_url c)
                          \<and> signal req = None"
    using request_sent by blast
  from a have "request_url c endpoint = baseUrl c @ ''api/now/v2/'' @ endpoint"
    by (simp add: request_url_def)
  with n show "\<exists>new. sent w'' = sent w @ new
           \<and> (\<forall>req \<in> set new.
                 url req = baseUrl c @ ''api/now/v2/'' @ endpoint
                 \<or> url req = baseUrl c @ ''api/now/v2/'' @ ''table/sys_user?sysparm_limit=1'')"
    by (auto simp: verification_url_def)
qed

theorem client_fields_and_urls_witness:
  "baseUrl (ServiceNowAPI example_credential) = ''https://dev.service-now.com/''
   \<and> state_after 5 (ExecuteScript ''gs.info(1)'') example_client three_401_world \<noteq> None
   \<and> same_identity example_client
        (fst (the (state_after 5 (ExecuteScript ''gs.info(1)'') example_client three_401_world)))
   \<and> request 5 ''v1/script/execute'' script_options example_client three_401_world \<noteq> None
   \<and> \<not> startsWith ''v1/script/execute'' ''http''
   \<and> (\<exists>new. sent (snd (snd (the (request 5 ''v1/script/execute'' script_options example_client
                                     three_401_world))))
               = sent three_401_world @ new
          \<and> (\<forall>req \<in> set new.
                url req = baseUrl example_client @ ''api/now/v2/'' @ ''v1/script/execute''
                \<or> url req = baseUrl example_client @ ''api/now/v2/'' @ ''table/sys_user?sysparm_limit=1''))"
proof -
  have h0: "baseUrl (ServiceNowAPI example_credential) = ''https://dev.service-now.com/''"
    by code_simp
  have h1: "state_after 5 (ExecuteScript ''gs.info(1)'') example_client three_401_world \<noteq> None"
    by code_simp
  then obtain c1 w1 where
    s: "state_after 5 (ExecuteScript ''gs.info(1)'') example_client three_401_world = Some (c1, w1)"
    by auto
  have h2: "request 5 ''v1/script/execute'' script_options example_client three_401_world \<noteq> None"
    by code_simp
  then obtain r2 c2 w2 where
    r: "request 5 ''v1/script/execute'' script_options example_client three_401_world = Some (r2, c2, w2)"
    by auto
  have h3: "\<not> startsWith ''v1/script/execute'' ''http''"
    by (simp add: startsWith_def)
  note a = client_fields_and_urls
         [where credential = example_credential and fuel = 5
            and operation = "ExecuteScript ''gs.info(1)''" and c = example_client
            and w = three_401_world and c' = c1 and w' = w1
            and endpoint = "''v1/script/execute''" and options = script_options
            and r = r2 and c'' = c2 and w'' = w2]
  from a s have i: "same_identity example_client c1" by blast
  from a r h3 have u: "\<exists>new. sent w2 = sent three_401_world @ new
          \<and> (\<forall>req \<in> set new.
                url req = baseUrl example_client @ ''api/now/v2/'' @ ''v1/script/execute''
                \<or> url req = baseUrl example_client @ ''api/now/v2/'' @ ''table/sys_user?sysparm_limit=1'')"
    by blast
  have e1: "fst (the (state_after 5 (ExecuteScript ''gs.info(1)'') example_client three_401_world)) = c1"
    by (simp only: s option.sel fst_conv)
  have e2: "snd (snd (the (request 5 ''v1/script/execute'' script_options example_client
                                     three_401_world))) = w2"
    by (simp only: r option.sel snd_conv)
  show ?thesis
    unfolding e1 e2 using h0 h1 h2 h3 i u by blast
qed

section \<open>Properties of chat persistence\<close>

subsection \<open>Auxiliary facts\<close>

lemma db_call_eq: "db_call b = (f, b1) \<longleftrightarrow> f = faults b (calls b) \<and> b1 = b\<lparr>calls := Suc (calls b)\<rparr>"
  by (auto simp: db_call_def)

lemma insert_conversation_Inr:
  assumes "insert_conversation userId title created updated b = (Inr cid, b')"
  shows "cid \<notin> set (map conv_id (conversations b))
     \<and> conversations b' = conversations b @
               [\<lparr> conv_id = cid, conv_user_id = userId, conv_title = title,
                  conv_created_at = created, conv_updated_at = updated \<rparr>]
     \<and> messages b' = messages b \<and> faults b' = faults b \<and> calls b' = Suc (calls b)"
proof (cases "faults b (calls b)")
  case None
  with assms show ?thesis
    by (simp add: insert_conversation_def db_call_def generate_ids_def Let_def split: if_splits) auto
next
  case (Some f)
  with assms show ?thesis
    by (simp add: insert_conversation_def db_call_def)
qed


lemma zip_stored:
  "map (\<lambda>(newId, cid', content, sender, created, metadata).
                                \<lparr> msg_id = newId, msg_conversation_id = cid', msg_content = content,
                                  msg_sender = sender, msg_created_at = created,
                                  msg_metadata = metadata \<rparr>)
       (zip ids (map (\<lambda>message. (cid, cm_content message, cm_sender message,
                                     cm_timestamp message, cm_codeSnippets message)) msgs))
   = map (stored_message cid) (zip ids msgs)"
  by (simp add: zip_map2 stored_message_def case_prod_unfold)

lemma insert_messages_Inr:
  assumes "insert_messages rows b = (Inr u, b')"
  shows "\<exists>ids. length ids = length rows
     \<and> messages b' = messages b @
                         map (\<lambda>(newId, cid, content, sender, created, metadata).
                                \<lparr> msg_id = newId, msg_conversation_id = cid, msg_content = content,
                                  msg_sender = sender, msg_created_at = created,
                                  msg_metadata = metadata \<rparr>)
                             (zip ids rows)
     \<and> conversations b' = conversations b \<and> faults b' = faults b \<and> calls b' = Suc (calls b)"
proof (cases "faults b (calls b)")
  case None
  let ?b1 = "b\<lparr>calls := Suc (calls b)\<rparr>"
  obtain ids b2 where g: "generate_ids (length rows) ?b1 = (ids, b2)" by (metis surj_pair)
  then have l: "length ids = length rows" and b2: "b2 = ?b1\<lparr>issued := issued ?b1 + length rows\<rparr>"
    by (auto simp: generate_ids_def)
  from assms None g have
    "b' = b2\<lparr>messages := messages b2 @
                         map (\<lambda>(newId, cid, content, sender, created, metadata).
                                \<lparr> msg_id = newId, msg_conversation_id = cid, msg_content = content,
                                  msg_sender = sender, msg_created_at = created,
                                  msg_metadata = metadata \<rparr>)
                             (zip ids rows)\<rparr>"
    by (simp add: insert_messages_def db_call_def split: if_splits)
  with l b2 show ?thesis by (intro exI[of _ ids]) simp
next
  case (Some f)
  with assms show ?thesis
    by (simp add: insert_messages_def db_call_def)
qed


lemma filter_stored:
  "filter (\<lambda>r. msg_conversation_id r = cid) (map (stored_message cid) xs) = map (stored_message cid) xs"
  by (induction xs) (auto simp: stored_message_def)

lemma stored_fields:
  assumes "length ids = length msgs"
  shows "map msg_created_at (map (stored_message cid) (zip ids msgs)) = map cm_timestamp msgs"
    and "map msg_content (map (stored_message cid) (zip ids msgs)) = map cm_content msgs"
    and "map msg_sender (map (stored_message cid) (zip ids msgs)) = map cm_sender msgs"
    and "map msg_metadata (map (stored_message cid) (zip ids msgs)) = map cm_codeSnippets msgs"
    and "map msg_id (map (stored_message cid) (zip ids msgs)) = ids"
  using assms by (induction ids msgs rule: list_induct2; simp add: stored_message_def)+

lemma strictly_sorted_imp_sorted:
  "sorted_wrt (<) (xs :: int list) \<Longrightarrow> sorted xs"
  by (induction xs) (auto simp: less_imp_le)


lemma saveConversation_unfold:
  "saveConversation userId title msgs b =
     (case insert_conversation userId title (fst (db_now b)) (fst (db_now (snd (db_now b))))
             (snd (db_now (snd (db_now b)))) of
        (Inl f, b3) \<Rightarrow> (None, b3)
      | (Inr conversationId, b3) \<Rightarrow>
          (case insert_messages
                  (map (\<lambda>message. (conversationId, cm_content message, cm_sender message,
                                     cm_timestamp message, cm_codeSnippets message)) msgs) b3 of
             (Inl f, b4) \<Rightarrow> (None, b4)
           | (Inr u, b4) \<Rightarrow> (Some conversationId, b4)))"
  by (simp add: saveConversation_def Let_def case_prod_unfold split: sum.splits)


lemma db_now_frame:
  "conversations (snd (db_now b)) = conversations b" "messages (snd (db_now b)) = messages b"
  "faults (snd (db_now b)) = faults b" "calls (snd (db_now b)) = calls b"
  by (simp_all add: db_now_def)

lemma saveConversation_Some:
  assumes "saveConversation userId title msgs b = (Some cid, b')"
  shows "\<exists>created updated ids.
           cid \<notin> set (map conv_id (conversations b))
         \<and> conversations b' = conversations b @
               [\<lparr> conv_id = cid, conv_user_id = userId, conv_title = title,
                  conv_created_at = created, conv_updated_at = updated \<rparr>]
         \<and> length ids = length msgs
         \<and> messages b' = messages b @ map (stored_message cid) (zip ids msgs)
         \<and> faults b' = faults b \<and> calls b' = calls b + 2"
proof -
  let ?created = "fst (db_now b)" and ?updated = "fst (db_now (snd (db_now b)))"
  let ?b2 = "snd (db_now (snd (db_now b)))"
  obtain cr b3 where i1: "insert_conversation userId title ?created ?updated ?b2 = (cr, b3)"
    by (rule prod.exhaust)
  show ?thesis
  proof (cases cr)
    case (Inl f)
    with assms i1 show ?thesis by (simp add: saveConversation_unfold)
  next
    case (Inr cid')
    let ?rows = "map (\<lambda>message. (cid', cm_content message, cm_sender message,
                                     cm_timestamp message, cm_codeSnippets message)) msgs"
    obtain mr b4 where i2: "insert_messages ?rows b3 = (mr, b4)" by (rule prod.exhaust)
    show ?thesis
    proof (cases mr)
      case (Inl f)
      with assms i1 Inr i2 show ?thesis by (simp add: saveConversation_unfold)
    next
      case (Inr u)
      with assms i1 \<open>cr = Inr cid'\<close> i2 have cid: "cid' = cid" and b4: "b4 = b'"
        by (simp_all add: saveConversation_unfold)
      note c3 = insert_conversation_Inr[OF i1[unfolded \<open>cr = Inr cid'\<close> cid]]
      from insert_messages_Inr[OF i2[unfolded Inr b4 cid]] obtain ids where
        m4: "length ids = length msgs"
            "messages b' = messages b3 @ map (stored_message cid) (zip ids msgs)"
            "conversations b' = conversations b3" "faults b' = faults b3" "calls b' = Suc (calls b3)"
        unfolding zip_stored by auto
      from c3 m4 show ?thesis
        by (intro exI[of _ ?created] exI[of _ ?updated] exI[of _ ids]) (simp add: db_now_frame)
    qed
  qed
qed


lemma getConversationWithMessages_ok:
  assumes "filter (\<lambda>r. conv_id r = cid) (conversations b) = [row]"
    and "faults b (calls b) = None" and "faults b (Suc (calls b)) = None"
  shows "fst (getConversationWithMessages cid b) =
           Some \<lparr> cc_id = conv_id row, cc_title = conv_title row,
                  cc_createdAt = conv_created_at row, cc_updatedAt = conv_updated_at row,
                  cc_messages = Some (map (\<lambda>msg. \<lparr> cm_id = msg_id msg, cm_content = msg_content msg,
                                         cm_sender = msg_sender msg, cm_timestamp = msg_created_at msg,
                                         cm_codeSnippets = msg_metadata msg \<rparr>)
                      (sort_key msg_created_at
                         (filter (\<lambda>r. msg_conversation_id r = cid) (messages b)))) \<rparr>"
  using assms
  by (simp add: getConversationWithMessages_def select_conversation_def select_messages_def
                db_call_def)

lemma without_id_stored:
  "without_id \<lparr> cm_id = msg_id (stored_message cid p), cm_content = msg_content (stored_message cid p),
                 cm_sender = msg_sender (stored_message cid p),
                 cm_timestamp = msg_created_at (stored_message cid p),
                 cm_codeSnippets = msg_metadata (stored_message cid p) \<rparr> = without_id (snd p)"
  by (cases p) (simp add: without_id_def stored_message_def)

subsection \<open>Claims about saved conversations\<close>

text \<open>
  C6 (as amended). When \<open>saveConversation\<close> returns an id and the two reads of
  \<open>getConversationWithMessages\<close> do not fail, the conversation read back has the saved
  title and the saved messages, sorted by timestamp: the same messages up to their ids
  (the table assigns new ones), and in the original order when the timestamps are strictly
  increasing. Content, sender, code snippets and timestamp of each message are preserved.
\<close>

theorem save_then_get:
  assumes fk: "foreign_keys_hold b"
    and save: "saveConversation userId title msgs b = (Some cid, b')"
    and nofault: "faults b' (calls b') = None" "faults b' (Suc (calls b')) = None"
  shows "\<exists>conv ms. fst (getConversationWithMessages cid b') = Some conv
           \<and> cc_id conv = cid \<and> cc_title conv = title \<and> cc_messages conv = Some ms
           \<and> sorted (map cm_timestamp ms)
           \<and> mset (map without_id ms) = mset (map without_id msgs)
           \<and> (sorted_wrt (<) (map cm_timestamp msgs) \<longrightarrow> map without_id ms = map without_id msgs)"
proof -
  from saveConversation_Some[OF save] obtain created updated ids where
    fresh: "cid \<notin> set (map conv_id (conversations b))"
    and convs: "conversations b' = conversations b @
               [\<lparr> conv_id = cid, conv_user_id = userId, conv_title = title,
                  conv_created_at = created, conv_updated_at = updated \<rparr>]"
    and len: "length ids = length msgs"
    and rows: "messages b' = messages b @ map (stored_message cid) (zip ids msgs)"
    by blast
  let ?row = "\<lparr> conv_id = cid, conv_user_id = userId, conv_title = title,
                  conv_created_at = created, conv_updated_at = updated \<rparr>"
  let ?new = "map (stored_message cid) (zip ids msgs)"
  let ?f = "\<lambda>msg. \<lparr> cm_id = msg_id msg, cm_content = msg_content msg,
                                         cm_sender = msg_sender msg, cm_timestamp = msg_created_at msg,
                                         cm_codeSnippets = msg_metadata msg \<rparr>"
  let ?ms = "map ?f (sort_key msg_created_at ?new)"
  have old_convs: "filter (\<lambda>r. conv_id r = cid) (conversations b) = []"
    using fresh by (auto simp: filter_empty_conv)
  have one: "filter (\<lambda>r. conv_id r = cid) (conversations b') = [?row]"
    using old_convs convs by simp
  have old_msgs: "filter (\<lambda>r. msg_conversation_id r = cid) (messages b) = []"
    using fk fresh by (auto simp: filter_empty_conv foreign_keys_hold_def)
  have sel: "filter (\<lambda>r. msg_conversation_id r = cid) (messages b') = ?new"
    using old_msgs rows filter_stored by simp
  have got: "fst (getConversationWithMessages cid b') =
           Some \<lparr> cc_id = conv_id ?row, cc_title = conv_title ?row,
                  cc_createdAt = conv_created_at ?row, cc_updatedAt = conv_updated_at ?row,
                  cc_messages = Some ?ms \<rparr>"
    using getConversationWithMessages_ok[OF one nofault] unfolding sel .
  have ts: "map cm_timestamp ?ms = map msg_created_at (sort_key msg_created_at ?new)"
    by simp
  have s: "sorted (map cm_timestamp ?ms)"
    unfolding ts by (rule sorted_sort_key)
  have wo: "map without_id (map ?f xs) = map (\<lambda>r. without_id (?f r)) xs" for xs
    by simp
  have base: "map (\<lambda>r. without_id (?f r)) ?new = map without_id msgs"
  proof -
    have "map (\<lambda>r. without_id (?f r)) ?new = map (\<lambda>p. without_id (snd p)) (zip ids msgs)"
      unfolding map_map comp_def without_id_stored ..
    also have "\<dots> = map without_id (map snd (zip ids msgs))"
      unfolding map_map comp_def ..
    also have "\<dots> = map without_id msgs" using len by simp
    finally show ?thesis .
  qed
  have "mset (map without_id ?ms) = mset (map (\<lambda>r. without_id (?f r)) (sort_key msg_created_at ?new))"
    unfolding map_map comp_def ..
  also have "\<dots> = image_mset (\<lambda>r. without_id (?f r)) (mset (sort_key msg_created_at ?new))"
    by (rule mset_map)
  also have "\<dots> = image_mset (\<lambda>r. without_id (?f r)) (mset ?new)"
    by (simp only: mset_sort)
  also have "\<dots> = mset (map (\<lambda>r. without_id (?f r)) ?new)"
    by (rule mset_map[symmetric])
  finally have m: "mset (map without_id ?ms) = mset (map without_id msgs)"
    unfolding base .
  have o: "map without_id ?ms = map without_id msgs" if "sorted_wrt (<) (map cm_timestamp msgs)"
  proof -
    have "sorted (map msg_created_at ?new)"
      using stored_fields(1)[OF len] strictly_sorted_imp_sorted[OF that] by simp
    then have "sort_key msg_created_at ?new = ?new"
      by (rule sort_key_id_if_sorted)
    then have "map without_id ?ms = map (\<lambda>r. without_id (?f r)) ?new"
      unfolding map_map comp_def by simp
    then show ?thesis unfolding base .
  qed
  show ?thesis
    using got s m o by (intro exI[of _ "\<lparr> cc_id = conv_id ?row, cc_title = conv_title ?row,
                  cc_createdAt = conv_created_at ?row, cc_updatedAt = conv_updated_at ?row,
                  cc_messages = Some ?ms \<rparr>"] exI[of _ ?ms]) simp
qed

theorem save_then_get_witness:
  "foreign_keys_hold example_backend
   \<and> fst (saved [m1, m2]) = Some ''uuid-0''
   \<and> faults (snd (saved [m1, m2])) (calls (snd (saved [m1, m2]))) = None
   \<and> faults (snd (saved [m1, m2])) (Suc (calls (snd (saved [m1, m2])))) = None
   \<and> sorted_wrt (<) (map cm_timestamp [m1, m2])
   \<and> (\<exists>conv ms. read_back [m1, m2] = Some conv
          \<and> cc_id conv = ''uuid-0'' \<and> cc_title conv = ''Title'' \<and> cc_messages conv = Some ms
          \<and> sorted (map cm_timestamp ms)
          \<and> mset (map without_id ms) = mset (map without_id [m1, m2])
          \<and> map without_id ms = map without_id [m1, m2])"
proof -
  have h1: "foreign_keys_hold example_backend"
    by (simp add: foreign_keys_hold_def example_backend_def)
  have h2: "fst (saved [m1, m2]) = Some ''uuid-0''"
    by code_simp
  then have h2': "saveConversation ''user-1'' ''Title'' [m1, m2] example_backend
                    = (Some ''uuid-0'', snd (saved [m1, m2]))"
    unfolding saved_def by (metis prod.collapse)
  have h3: "faults (snd (saved [m1, m2])) (calls (snd (saved [m1, m2]))) = None"
    by code_simp
  have h4: "faults (snd (saved [m1, m2])) (Suc (calls (snd (saved [m1, m2])))) = None"
    by code_simp
  have h5: "sorted_wrt (<) (map cm_timestamp [m1, m2])"
    by (simp add: m1_def m2_def)
  from save_then_get[OF h1 h2' h3 h4] h5 have
    "\<exists>conv ms. read_back [m1, m2] = Some conv
          \<and> cc_id conv = ''uuid-0'' \<and> cc_title conv = ''Title'' \<and> cc_messages conv = Some ms
          \<and> sorted (map cm_timestamp ms)
          \<and> mset (map without_id ms) = mset (map without_id [m1, m2])
          \<and> map without_id ms = map without_id [m1, m2]"
    unfolding read_back_def by blast
  with h1 h2 h3 h4 h5 show ?thesis by blast
qed

theorem saved_messages_counterexample:
  "fst (saved [m1, m2]) = Some ''uuid-0''
   \<and> map_option cc_messages (read_back [m1, m2])
       = Some (Some [m1\<lparr>cm_id := ''uuid-1''\<rparr>, m2\<lparr>cm_id := ''uuid-2''\<rparr>])
   \<and> map_option cc_messages (read_back [m1, m2]) \<noteq> Some (Some [m1, m2])
   \<and> fst (saved [m2, m1]) = Some ''uuid-0''
   \<and> map_option cc_messages (read_back [m2, m1])
       = Some (Some [m1\<lparr>cm_id := ''uuid-2''\<rparr>, m2\<lparr>cm_id := ''uuid-1''\<rparr>])
   \<and> map_option cc_messages (read_back [m2, m1]) \<noteq> Some (Some [m2, m1])"
  by code_simp

section \<open>Properties of the credential store\<close>

subsection \<open>Auxiliary facts\<close>

lemma apply_updates_fields:
  "sn_id (apply_updates updates row) = sn_id row"
  "sn_user_id (apply_updates updates row) = sn_user_id row"
  "sn_created_at (apply_updates updates row) = sn_created_at row"
  "sn_name (apply_updates updates row) = (case upd_name updates of None \<Rightarrow> sn_name row | Some v \<Rightarrow> v)"
  "sn_instance_url (apply_updates updates row)
     = (case upd_instance_url updates of None \<Rightarrow> sn_instance_url row | Some v \<Rightarrow> v)"
  "sn_username (apply_updates updates row)
     = (case upd_username updates of None \<Rightarrow> sn_username row | Some v \<Rightarrow> v)"
  "sn_password (apply_updates updates row)
     = (case upd_password updates of None \<Rightarrow> sn_password row | Some v \<Rightarrow> v)"
  by (simp_all add: apply_updates_def)

lemma update_credential_rows:
  assumes "update_credential cid userId updates b = (r, b')"
  shows "servicenow_credentials b' = servicenow_credentials b
       \<or> servicenow_credentials b' =
            updated_rows cid userId updates (servicenow_credentials b)"
proof (cases "faults b (calls b)")
  case None
  with assms show ?thesis
    by (auto simp: update_credential_def db_call_def Let_def split: if_splits list.splits)
next
  case (Some f)
  with assms show ?thesis by (auto simp: update_credential_def db_call_def)
qed

lemma update_credential_Inr:
  assumes "update_credential cid userId updates b = (Inr row, b')"
  shows "row \<in> set (servicenow_credentials b') \<and> sn_id row = cid \<and> sn_user_id row = userId
       \<and> (\<exists>old \<in> set (servicenow_credentials b). row = apply_updates updates old
              \<and> sn_id old = cid \<and> sn_user_id old = userId)"
proof (cases "faults b (calls b)")
  case None
  let ?rows = "updated_rows cid userId updates (servicenow_credentials b)"
  from assms None have f: "filter (\<lambda>r. sn_id r = cid \<and> sn_user_id r = userId) ?rows = [row]"
    and b': "servicenow_credentials b' = ?rows"
    by (auto simp: update_credential_def db_call_def Let_def split: if_splits list.splits)
  from f have "row \<in> set (filter (\<lambda>r. sn_id r = cid \<and> sn_user_id r = userId) ?rows)" by simp
  then have m: "row \<in> set ?rows" "sn_id row = cid" "sn_user_id row = userId" by auto
  then obtain old where "old \<in> set (servicenow_credentials b)"
     "row = (if sn_id old = cid \<and> sn_user_id old = userId then apply_updates updates old else old)"
    unfolding updated_rows_def by auto
  with m have "old \<in> set (servicenow_credentials b) \<and> row = apply_updates updates old
              \<and> sn_id old = cid \<and> sn_user_id old = userId"
    by (auto split: if_splits)
  with m b' show ?thesis by auto
next
  case (Some f)
  with assms show ?thesis by (auto simp: update_credential_def db_call_def)
qed

lemma updateServiceNowCredential_rows:
  assumes "updateServiceNowCredential cid userId updates b = (r, b')"
  shows "servicenow_credentials b' = servicenow_credentials b
       \<or> servicenow_credentials b' =
            updated_rows cid userId updates (servicenow_credentials b)"
proof -
  obtain r0 where "update_credential cid userId updates b = (r0, b')"
    using assms by (auto simp: updateServiceNowCredential_def split: prod.splits sum.splits)
  then show ?thesis by (rule update_credential_rows)
qed

lemma updateServiceNowCredential_Inr:
  assumes "updateServiceNowCredential cid userId updates b = (Inr row, b')"
  shows "row \<in> set (servicenow_credentials b') \<and> sn_id row = cid \<and> sn_user_id row = userId
       \<and> (\<exists>old \<in> set (servicenow_credentials b). row = apply_updates updates old
              \<and> sn_id old = cid \<and> sn_user_id old = userId)"
proof -
  have "update_credential cid userId updates b = (Inr row, b')"
    using assms by (auto simp: updateServiceNowCredential_def split: prod.splits sum.splits)
  then show ?thesis by (rule update_credential_Inr)
qed


lemma updated_rows_frame:
  "map sn_id (updated_rows cid userId updates rows) = map sn_id rows"
  "map sn_user_id (updated_rows cid userId updates rows) = map sn_user_id rows"
  "map sn_created_at (updated_rows cid userId updates rows) = map sn_created_at rows"
  "upd_password updates = None \<Longrightarrow>
     map sn_password (updated_rows cid userId updates rows) = map sn_password rows"
  "upd_name updates = None \<Longrightarrow> map sn_name (updated_rows cid userId updates rows) = map sn_name rows"
  "upd_instance_url updates = None \<Longrightarrow>
     map sn_instance_url (updated_rows cid userId updates rows) = map sn_instance_url rows"
  "upd_username updates = None \<Longrightarrow>
     map sn_username (updated_rows cid userId updates rows) = map sn_username rows"
  by (auto simp: updated_rows_def apply_updates_fields)

lemma updated_rows_nth:
  "i < length rows \<Longrightarrow> updated_rows cid userId updates rows ! i \<noteq> rows ! i \<Longrightarrow>
     sn_id (rows ! i) = cid \<and> sn_user_id (rows ! i) = userId"
  by (auto simp: updated_rows_def split: if_splits)

lemma handleUpdateCredential_password:
  assumes "form_password credential = []"
  shows "map sn_password (servicenow_credentials (handleUpdateCredential user cid credential b))
           = map sn_password (servicenow_credentials b)"
proof (cases user)
  case None
  then show ?thesis by (simp add: handleUpdateCredential_def)
next
  case (Some uid)
  have p: "upd_password (form_updates credential) = None"
    using assms by (simp add: form_updates_def)
  obtain r b' where u: "updateServiceNowCredential cid uid (form_updates credential) b = (r, b')"
    by (rule prod.exhaust)
  from updateServiceNowCredential_rows[OF u]
       updated_rows_frame(4)[OF p, where cid = cid and userId = uid
                               and rows = "servicenow_credentials b"]
  have "map sn_password (servicenow_credentials b') = map sn_password (servicenow_credentials b)"
    by auto
  with Some u show ?thesis by (simp add: handleUpdateCredential_def)
qed

lemma insert_credential_Inr:
  assumes "insert_credential userId name instanceUrl uname pw b = (Inr row, b')"
  shows "servicenow_credentials b' = servicenow_credentials b @ [row]
       \<and> sn_id row \<notin> set (map sn_id (servicenow_credentials b))
       \<and> sn_user_id row = userId \<and> sn_name row = name \<and> sn_instance_url row = instanceUrl
       \<and> sn_username row = uname \<and> sn_password row = pw"
proof (cases "faults b (calls b)")
  case None
  with assms show ?thesis
    by (simp add: insert_credential_def db_call_def generate_ids_def db_now_def Let_def
             split: if_splits) auto
next
  case (Some f)
  with assms show ?thesis by (simp add: insert_credential_def db_call_def)
qed

lemma insert_credential_fault:
  assumes "faults b (calls b) = Some f"
  shows "insert_credential userId name instanceUrl uname pw b = (Inl f, b\<lparr>calls := Suc (calls b)\<rparr>)"
  using assms by (simp add: insert_credential_def db_call_def)

lemma select_credential_Inr:
  assumes "select_credential cid b = (Inr r, b')"
  shows "servicenow_credentials b' = servicenow_credentials b
       \<and> filter (\<lambda>x. sn_id x = cid) (servicenow_credentials b) = [r]"
proof (cases "faults b (calls b)")
  case None
  with assms show ?thesis
    by (auto simp: select_credential_def db_call_def split: list.splits)
next
  case (Some f)
  with assms show ?thesis by (simp add: select_credential_def db_call_def)
qed

lemma rpc_insert_Some:
  assumes "rpc_insert userId name instanceUrl uname pw b = (Some fetched, b')"
  shows "fetched \<in> set (servicenow_credentials b')
       \<and> sn_user_id fetched = userId \<and> sn_name fetched = name \<and> sn_instance_url fetched = instanceUrl
       \<and> sn_username fetched = uname \<and> sn_password fetched = pw"
proof -
  obtain r1 b1 where i: "insert_credential userId name instanceUrl uname pw b = (r1, b1)"
    by (rule prod.exhaust)
  show ?thesis
  proof (cases r1)
    case (Inl f)
    with assms i show ?thesis by (simp add: rpc_insert_def)
  next
    case (Inr inserted)
    obtain r2 b2 where s: "select_credential (sn_id inserted) b1 = (r2, b2)" by (rule prod.exhaust)
    show ?thesis
    proof (cases r2)
      case (Inl f)
      with assms i Inr s show ?thesis by (simp add: rpc_insert_def)
    next
      case (Inr fetched')
      with assms i \<open>r1 = Inr inserted\<close> s have eq: "fetched' = fetched" "b2 = b'"
        by (simp_all add: rpc_insert_def)
      note ins = insert_credential_Inr[OF i[unfolded \<open>r1 = Inr inserted\<close>]]
      note sel = select_credential_Inr[OF s[unfolded Inr eq]]
      from ins have "sn_id inserted \<notin> sn_id ` set (servicenow_credentials b)" by simp
      then have "filter (\<lambda>x. sn_id x = sn_id inserted) (servicenow_credentials b) = []"
        unfolding filter_empty_conv by (metis imageI)
      with ins sel have "fetched = inserted" by simp
      with ins sel show ?thesis by simp
    qed
  qed
qed

lemma direct_insert_Inr:
  assumes "direct_insert userId name instanceUrl uname pw b = (Inr row, b')"
  shows "row \<in> set (servicenow_credentials b')
       \<and> sn_user_id row = userId \<and> sn_name row = name \<and> sn_instance_url row = instanceUrl
       \<and> sn_username row = uname \<and> sn_password row = pw"
proof -
  obtain r1 b1 where i: "insert_credential userId name instanceUrl uname pw b = (r1, b1)"
    by (rule prod.exhaust)
  show ?thesis
  proof (cases r1)
    case (Inl f)
    with assms i show ?thesis
      by (cases f) (auto simp: direct_insert_def split: if_splits prod.splits sum.splits option.splits)
  next
    case (Inr data)
    with assms i have "data = row" "b1 = b'" by (simp_all add: direct_insert_def)
    with insert_credential_Inr[OF i[unfolded Inr]] show ?thesis by simp
  qed
qed

lemma saveServiceNowCredential_Inr:
  assumes "saveServiceNowCredential userId name instanceUrl uname pw b = (Inr row, b')"
  shows "row \<in> set (servicenow_credentials b')
       \<and> sn_user_id row = userId \<and> sn_name row = name \<and> sn_instance_url row = instanceUrl
       \<and> sn_username row = uname \<and> sn_password row = pw"
proof -
  obtain checked b1 where c: "(case db_call b of
               (Some (Rejects m), b') \<Rightarrow> (Inl (Exception m), b')
             | (Some (Fails tableCheckError), b') \<Rightarrow>
                 if err_code tableCheckError = ''PGRST116''
                 then createServiceNowCredentialsTable b'
                 else (Inl (Postgrest tableCheckError), b')
             | (None, b') \<Rightarrow> (Inr True, b')) = (checked, b1)"
    by (rule prod.exhaust)
  show ?thesis
  proof (cases checked)
    case (Inl t)
    with assms c show ?thesis by (simp add: saveServiceNowCredential_def)
  next
    case (Inr u)
    obtain r2 b2 where r: "rpc_insert userId name instanceUrl uname pw b1 = (r2, b2)"
      by (rule prod.exhaust)
    show ?thesis
    proof (cases r2)
      case None
      with assms c Inr r have "direct_insert userId name instanceUrl uname pw b2 = (Inr row, b')"
        by (simp add: saveServiceNowCredential_def)
      then show ?thesis by (rule direct_insert_Inr)
    next
      case (Some fetched)
      with assms c Inr r have "fetched = row" "b2 = b'"
        by (simp_all add: saveServiceNowCredential_def)
      with rpc_insert_Some[OF r[unfolded Some]] show ?thesis by simp
    qed
  qed
qed


lemma db_call_faults: "faults (snd (db_call b)) = faults b"
  by (simp add: db_call_def)

lemma createServiceNowCredentialsTable_faults:
  "faults (snd (createServiceNowCredentialsTable b)) = faults b"
  by (simp add: createServiceNowCredentialsTable_def db_call_def split: option.splits fault.splits)

lemma getUser_faults:
  "faults (snd (getUser b)) = faults b"
  by (simp add: getUser_def db_call_def split: option.splits fault.splits)

lemma rpc_insert_all_fail:
  assumes "\<forall>i. faults b i \<noteq> None"
  shows "fst (rpc_insert userId name instanceUrl uname pw b) = None
       \<and> faults (snd (rpc_insert userId name instanceUrl uname pw b)) = faults b"
proof -
  from assms obtain f where "faults b (calls b) = Some f" by auto
  then show ?thesis
    by (simp add: rpc_insert_def insert_credential_fault)
qed

lemma direct_insert_all_fail:
  assumes "\<forall>i. faults b i \<noteq> None"
  shows "\<exists>t. fst (direct_insert userId name instanceUrl uname pw b) = Inl t"
proof -
  from assms obtain f where f: "faults b (calls b) = Some f" by auto
  show ?thesis
  proof (cases f)
    case (Rejects m)
    with f show ?thesis by (simp add: direct_insert_def insert_credential_fault)
  next
    case (Fails error)
    let ?b1 = "b\<lparr>calls := Suc (calls b)\<rparr>"
    obtain ru b2 where g: "getUser ?b1 = (ru, b2)" by (rule prod.exhaust)
    from f Fails g show ?thesis
      by (cases ru) (auto simp: direct_insert_def insert_credential_fault split: option.splits)
  qed
qed

lemma saveServiceNowCredential_all_fail:
  assumes "\<forall>i. faults b i \<noteq> None"
  shows "\<exists>t. fst (saveServiceNowCredential userId name instanceUrl uname pw b) = Inl t"
proof -
  let ?check = "(case db_call b of
               (Some (Rejects m), b') \<Rightarrow> (Inl (Exception m), b')
             | (Some (Fails tableCheckError), b') \<Rightarrow>
                 if err_code tableCheckError = ''PGRST116''
                 then createServiceNowCredentialsTable b'
                 else (Inl (Postgrest tableCheckError), b')
             | (None, b') \<Rightarrow> (Inr True, b'))"
  obtain checked b1 where c: "?check = (checked, b1)" by (rule prod.exhaust)
  have "faults (snd ?check) = faults b"
    by (auto simp: db_call_def createServiceNowCredentialsTable_def
             split: option.splits fault.splits)
  with c have fb1: "faults b1 = faults b" by simp
  show ?thesis
  proof (cases checked)
    case (Inl t)
    with c show ?thesis by (simp add: saveServiceNowCredential_def)
  next
    case (Inr u)
    have all1: "\<forall>i. faults b1 i \<noteq> None" using assms fb1 by simp
    obtain r2 b2 where r: "rpc_insert userId name instanceUrl uname pw b1 = (r2, b2)"
      by (rule prod.exhaust)
    with rpc_insert_all_fail[OF all1, of userId name instanceUrl uname pw]
    have r2: "r2 = None" and fb2: "faults b2 = faults b1" by simp_all
    have "\<forall>i. faults b2 i \<noteq> None" using all1 fb2 by simp
    from direct_insert_all_fail[OF this, of userId name instanceUrl uname pw]
    show ?thesis using c Inr r r2 by (simp add: saveServiceNowCredential_def)
  qed
qed

lemma first_call_fails:
  assumes "faults b (calls b) = Some f"
  shows "fst (updateServiceNowCredential cid userId updates b) = Inl (throw_of f)"
    and "fst (deleteServiceNowCredential cid userId b) = Inl (throw_of f)"
    and "fst (getServiceNowCredentials userId b) = Inl (throw_of f)"
    and "fst (saveConversation userId title msgs b) = None"
    and "fst (updateConversationTitle conversationId title b) = False"
    and "fst (deleteConversation conversationId b) = False"
    and "fst (getConversations userId b) = []"
    and "fst (getConversationWithMessages conversationId b) = None"
  using assms
  by (simp_all add: updateServiceNowCredential_def update_credential_def
        deleteServiceNowCredential_def delete_credential_def
        getServiceNowCredentials_def select_credentials_def
        saveConversation_def insert_conversation_def db_now_def
        updateConversationTitle_def update_conversation_def
        deleteConversation_def delete_messages_def
        getConversations_def select_conversations_def
        getConversationWithMessages_def select_conversation_def db_call_def)

lemma deleteServiceNowCredential_Inr:
  assumes "deleteServiceNowCredential cid userId b = (Inr u, b')"
  shows "\<not> (\<exists>r \<in> set (servicenow_credentials b'). sn_id r = cid \<and> sn_user_id r = userId)"
proof (cases "faults b (calls b)")
  case None
  with assms show ?thesis
    by (auto simp: deleteServiceNowCredential_def delete_credential_def db_call_def)
next
  case (Some f)
  with assms show ?thesis
    by (simp add: deleteServiceNowCredential_def delete_credential_def db_call_def)
qed

subsection \<open>Claims about the stores\<close>

text \<open>
  C8. After \<open>updateServiceNowCredential\<close>, whether it returns or throws, every stored row
  has its old id, owner and creation time, and its old value in every field that the
  updates leave out (the password among them); a row that changed is the one with the given
  id and owner; a returned row is stored and has the given value in every field that the
  updates hold. \<open>handleUpdateCredential\<close> with an empty password in the form leaves every
  stored password as it was.
\<close>

theorem update_keeps_omitted_fields:
  assumes "updateServiceNowCredential cid userId updates b = (r, b')"
  shows "map sn_id (servicenow_credentials b') = map sn_id (servicenow_credentials b)
       \<and> map sn_user_id (servicenow_credentials b') = map sn_user_id (servicenow_credentials b)
       \<and> map sn_created_at (servicenow_credentials b') = map sn_created_at (servicenow_credentials b)
       \<and> (upd_password updates = None \<longrightarrow>
            map sn_password (servicenow_credentials b') = map sn_password (servicenow_credentials b))
       \<and> (upd_name updates = None \<longrightarrow>
            map sn_name (servicenow_credentials b') = map sn_name (servicenow_credentials b))
       \<and> (upd_instance_url updates = None \<longrightarrow>
            map sn_instance_url (servicenow_credentials b') = map sn_instance_url (servicenow_credentials b))
       \<and> (upd_username updates = None \<longrightarrow>
            map sn_username (servicenow_credentials b') = map sn_username (servicenow_credentials b))
       \<and> (\<forall>i < length (servicenow_credentials b).
             servicenow_credentials b' ! i \<noteq> servicenow_credentials b ! i \<longrightarrow>
             sn_id (servicenow_credentials b ! i) = cid \<and> sn_user_id (servicenow_credentials b ! i) = userId)
       \<and> (\<forall>row. r = Inr row \<longrightarrow>
             row \<in> set (servicenow_credentials b') \<and> sn_id row = cid \<and> sn_user_id row = userId
             \<and> (\<forall>v. upd_name updates = Some v \<longrightarrow> sn_name row = v)
             \<and> (\<forall>v. upd_instance_url updates = Some v \<longrightarrow> sn_instance_url row = v)
             \<and> (\<forall>v. upd_username updates = Some v \<longrightarrow> sn_username row = v)
             \<and> (\<forall>v. upd_password updates = Some v \<longrightarrow> sn_password row = v))
       \<and> (form_password credential = [] \<longrightarrow>
            map sn_password (servicenow_credentials (handleUpdateCredential user cid' credential store))
              = map sn_password (servicenow_credentials store))"
proof -
  note rows = updateServiceNowCredential_rows[OF assms]
  note fr = updated_rows_frame[where cid = cid and userId = userId and updates = updates
                                   and rows = "servicenow_credentials b"]
  note nth = updated_rows_nth[where rows = "servicenow_credentials b" and cid = cid
                                and userId = userId and updates = updates]
  have a: "map sn_id (servicenow_credentials b') = map sn_id (servicenow_credentials b)"
    using rows fr(1) by (elim disjE) simp_all
  have b: "map sn_user_id (servicenow_credentials b') = map sn_user_id (servicenow_credentials b)"
    using rows fr(2) by (elim disjE) simp_all
  have c: "map sn_created_at (servicenow_credentials b') = map sn_created_at (servicenow_credentials b)"
    using rows fr(3) by (elim disjE) simp_all
  have d: "upd_password updates = None \<longrightarrow>
            map sn_password (servicenow_credentials b') = map sn_password (servicenow_credentials b)"
    using rows fr(4) by (elim disjE) simp_all
  have e: "upd_name updates = None \<longrightarrow>
            map sn_name (servicenow_credentials b') = map sn_name (servicenow_credentials b)"
    using rows fr(5) by (elim disjE) simp_all
  have f: "upd_instance_url updates = None \<longrightarrow>
            map sn_instance_url (servicenow_credentials b') = map sn_instance_url (servicenow_credentials b)"
    using rows fr(6) by (elim disjE) simp_all
  have g: "upd_username updates = None \<longrightarrow>
            map sn_username (servicenow_credentials b') = map sn_username (servicenow_credentials b)"
    using rows fr(7) by (elim disjE) simp_all
  have h: "\<forall>i < length (servicenow_credentials b).
             servicenow_credentials b' ! i \<noteq> servicenow_credentials b ! i \<longrightarrow>
             sn_id (servicenow_credentials b ! i) = cid \<and> sn_user_id (servicenow_credentials b ! i) = userId"
  proof (intro allI impI)
    fix i assume i: "i < length (servicenow_credentials b)"
      and ne: "servicenow_credentials b' ! i \<noteq> servicenow_credentials b ! i"
    from rows ne have "servicenow_credentials b' = updated_rows cid userId updates (servicenow_credentials b)"
      by auto
    with ne have "updated_rows cid userId updates (servicenow_credentials b) ! i
                    \<noteq> servicenow_credentials b ! i" by simp
    from nth[OF i this]
    show "sn_id (servicenow_credentials b ! i) = cid \<and> sn_user_id (servicenow_credentials b ! i) = userId" .
  qed
  have i: "\<forall>row. r = Inr row \<longrightarrow>
             row \<in> set (servicenow_credentials b') \<and> sn_id row = cid \<and> sn_user_id row = userId
             \<and> (\<forall>v. upd_name updates = Some v \<longrightarrow> sn_name row = v)
             \<and> (\<forall>v. upd_instance_url updates = Some v \<longrightarrow> sn_instance_url row = v)
             \<and> (\<forall>v. upd_username updates = Some v \<longrightarrow> sn_username row = v)
             \<and> (\<forall>v. upd_password updates = Some v \<longrightarrow> sn_password row = v)"
  proof (intro allI impI)
    fix row assume "r = Inr row"
    with assms have "updateServiceNowCredential cid userId updates b = (Inr row, b')" by simp
    from updateServiceNowCredential_Inr[OF this] obtain old where
      m: "row \<in> set (servicenow_credentials b')" "sn_id row = cid" "sn_user_id row = userId"
      and old: "row = apply_updates updates old"
      by blast
    show "row \<in> set (servicenow_credentials b') \<and> sn_id row = cid \<and> sn_user_id row = userId
             \<and> (\<forall>v. upd_name updates = Some v \<longrightarrow> sn_name row = v)
             \<and> (\<forall>v. upd_instance_url updates = Some v \<longrightarrow> sn_instance_url row = v)
             \<and> (\<forall>v. upd_username updates = Some v \<longrightarrow> sn_username row = v)
             \<and> (\<forall>v. upd_password updates = Some v \<longrightarrow> sn_password row = v)"
      using m unfolding old by (simp add: apply_updates_fields)
  qed
  have j: "form_password credential = [] \<longrightarrow>
            map sn_password (servicenow_credentials (handleUpdateCredential user cid' credential store))
              = map sn_password (servicenow_credentials store)"
    using handleUpdateCredential_password by blast
  from a b c d e f g h i j show ?thesis by (intro conjI)
qed

theorem update_keeps_omitted_fields_witness:
  "fst renamed = Inr (example_credential\<lparr>sn_name := ''New''\<rparr>)
   \<and> upd_password rename_only = None
   \<and> map sn_password (servicenow_credentials (snd renamed)) = map sn_password (servicenow_credentials cred_backend)
   \<and> map sn_name (servicenow_credentials (snd renamed)) = [''New'', ''prod'']
   \<and> example_credential\<lparr>sn_name := ''New''\<rparr> \<in> set (servicenow_credentials (snd renamed))
   \<and> form_password edit_form = []
   \<and> map sn_password
        (servicenow_credentials (handleUpdateCredential (Some ''user-1'') ''cred-1'' edit_form cred_backend))
      = map sn_password (servicenow_credentials cred_backend)"
proof -
  have h1: "fst renamed = Inr (example_credential\<lparr>sn_name := ''New''\<rparr>)"
    by code_simp
  have h2: "upd_password rename_only = None"
    by (simp add: rename_only_def)
  have h3: "form_password edit_form = []"
    by (simp add: edit_form_def)
  have h4: "map sn_name (servicenow_credentials (snd renamed)) = [''New'', ''prod'']"
    by code_simp
  have u: "updateServiceNowCredential ''cred-1'' ''user-1'' rename_only cred_backend
             = (fst renamed, snd renamed)"
    by (simp add: renamed_def)
  note a = update_keeps_omitted_fields
             [OF u, where credential = edit_form and user = "Some ''user-1''" and cid' = "''cred-1''"
                      and store = cred_backend]
  from a h2 have p: "map sn_password (servicenow_credentials (snd renamed))
                       = map sn_password (servicenow_credentials cred_backend)"
    by blast
  from a h1 have m: "example_credential\<lparr>sn_name := ''New''\<rparr> \<in> set (servicenow_credentials (snd renamed))"
    by blast
  from a h3 have f: "map sn_password
        (servicenow_credentials (handleUpdateCredential (Some ''user-1'') ''cred-1'' edit_form cred_backend))
      = map sn_password (servicenow_credentials cred_backend)"
    by blast
  from h1 h2 p h4 m h3 f show ?thesis by (intro conjI)
qed

text \<open>
  C7 (as amended). When its store call fails, \<open>updateServiceNowCredential\<close>,
  \<open>deleteServiceNowCredential\<close> and the read \<open>getServiceNowCredentials\<close> throw the
  error of the call, while \<open>saveConversation\<close>, \<open>updateConversationTitle\<close> and
  \<open>deleteConversation\<close> return \<open>null\<close> or \<open>false\<close>, as the reads
  \<open>getConversations\<close> and \<open>getConversationWithMessages\<close> return \<open>[]\<close> and
  \<open>null\<close>. \<open>saveServiceNowCredential\<close> throws when all its calls fail. The three
  credential writes return normally only when the write is in the table.
\<close>

theorem store_failures:
  "(faults b (calls b) = Some f \<longrightarrow>
       fst (updateServiceNowCredential cid userId updates b) = Inl (throw_of f)
     \<and> fst (deleteServiceNowCredential cid userId b) = Inl (throw_of f)
     \<and> fst (getServiceNowCredentials userId b) = Inl (throw_of f)
     \<and> fst (saveConversation userId title msgs b) = None
     \<and> fst (updateConversationTitle conversationId title b) = False
     \<and> fst (deleteConversation conversationId b) = False
     \<and> fst (getConversations userId b) = []
     \<and> fst (getConversationWithMessages conversationId b) = None)
   \<and> ((\<forall>i. faults b i \<noteq> None) \<longrightarrow>
        (\<exists>t. fst (saveServiceNowCredential userId name instanceUrl uname pw b) = Inl t))
   \<and> (saveServiceNowCredential userId name instanceUrl uname pw b = (Inr row, ba) \<longrightarrow>
        row \<in> set (servicenow_credentials ba)
        \<and> sn_user_id row = userId \<and> sn_name row = name \<and> sn_instance_url row = instanceUrl
        \<and> sn_username row = uname \<and> sn_password row = pw)
   \<and> (updateServiceNowCredential cid userId updates b = (Inr row, bb) \<longrightarrow>
        row \<in> set (servicenow_credentials bb) \<and> sn_id row = cid \<and> sn_user_id row = userId)
   \<and> (deleteServiceNowCredential cid userId b = (Inr u, bc) \<longrightarrow>
        \<not> (\<exists>r \<in> set (servicenow_credentials bc). sn_id r = cid \<and> sn_user_id r = userId))"
proof (intro conjI impI)
  assume f: "faults b (calls b) = Some f"
  show "fst (updateServiceNowCredential cid userId updates b) = Inl (throw_of f)"
    and "fst (deleteServiceNowCredential cid userId b) = Inl (throw_of f)"
    and "fst (getServiceNowCredentials userId b) = Inl (throw_of f)"
    and "fst (saveConversation userId title msgs b) = None"
    and "fst (updateConversationTitle conversationId title b) = False"
    and "fst (deleteConversation conversationId b) = False"
    and "fst (getConversations userId b) = []"
    and "fst (getConversationWithMessages conversationId b) = None"
    by (rule first_call_fails[OF f])+
next
  assume "\<forall>i. faults b i \<noteq> None"
  then show "\<exists>t. fst (saveServiceNowCredential userId name instanceUrl uname pw b) = Inl t"
    by (rule saveServiceNowCredential_all_fail)
next
  assume s: "saveServiceNowCredential userId name instanceUrl uname pw b = (Inr row, ba)"
  from saveServiceNowCredential_Inr[OF s]
  show "row \<in> set (servicenow_credentials ba)" and "sn_user_id row = userId" and "sn_name row = name"
    and "sn_instance_url row = instanceUrl" and "sn_username row = uname" and "sn_password row = pw"
    by simp_all
next
  assume s: "updateServiceNowCredential cid userId updates b = (Inr row, bb)"
  from updateServiceNowCredential_Inr[OF s]
  show "row \<in> set (servicenow_credentials bb)" and "sn_id row = cid" and "sn_user_id row = userId"
    by simp_all
next
  assume s: "deleteServiceNowCredential cid userId b = (Inr u, bc)"
  then show "\<not> (\<exists>r \<in> set (servicenow_credentials bc). sn_id r = cid \<and> sn_user_id r = userId)"
    by (rule deleteServiceNowCredential_Inr)
qed

theorem store_failures_witness:
  "faults failing_backend (calls failing_backend) = Some (Fails permission_denied)
   \<and> (\<forall>i. faults failing_backend i \<noteq> None)
   \<and> fst (updateServiceNowCredential ''cred-1'' ''user-1'' rename_only failing_backend)
       = Inl (Postgrest permission_denied)
   \<and> fst (deleteServiceNowCredential ''cred-1'' ''user-1'' failing_backend)
       = Inl (Postgrest permission_denied)
   \<and> fst (saveConversation ''user-1'' ''Title'' [m1, m2] failing_backend) = None
   \<and> (\<exists>t. fst (saveServiceNowCredential ''user-1'' ''test'' ''https://test.service-now.com''
                  ''tester'' ''secret'' failing_backend) = Inl t)
   \<and> (\<exists>row. fst saved_credential = Inr row
          \<and> row \<in> set (servicenow_credentials (snd saved_credential)) \<and> sn_name row = ''test'')
   \<and> fst deleted = Inr ()
   \<and> \<not> (\<exists>r \<in> set (servicenow_credentials (snd deleted)). sn_id r = ''cred-1'' \<and> sn_user_id r = ''user-1'')"
proof -
  have h1: "faults failing_backend (calls failing_backend) = Some (Fails permission_denied)"
    by (simp add: failing_backend_def)
  have h2: "\<forall>i. faults failing_backend i \<noteq> None"
    by (simp add: failing_backend_def)
  note a = store_failures
             [where b = failing_backend and f = "Fails permission_denied" and cid = "''cred-1''"
                and userId = "''user-1''" and updates = rename_only and title = "''Title''"
                and msgs = "[m1, m2]" and name = "''test''"
                and instanceUrl = "''https://test.service-now.com''" and uname = "''tester''"
                and pw = "''secret''"]
  from a h1 have c1:
    "fst (updateServiceNowCredential ''cred-1'' ''user-1'' rename_only failing_backend)
       = Inl (Postgrest permission_denied)"
    "fst (deleteServiceNowCredential ''cred-1'' ''user-1'' failing_backend)
       = Inl (Postgrest permission_denied)"
    "fst (saveConversation ''user-1'' ''Title'' [m1, m2] failing_backend) = None"
    by simp_all
  from a h2 have c2: "\<exists>t. fst (saveServiceNowCredential ''user-1'' ''test'' ''https://test.service-now.com''
                  ''tester'' ''secret'' failing_backend) = Inl t"
    by blast
  have "\<not> isl (fst saved_credential)"
    by code_simp
  then obtain row where r: "fst saved_credential = Inr row"
    by (cases "fst saved_credential") simp_all
  then have s: "saveServiceNowCredential ''user-1'' ''test'' ''https://test.service-now.com''
                  ''tester'' ''secret'' example_backend = (Inr row, snd saved_credential)"
    unfolding saved_credential_def by (metis prod.collapse)
  note b = store_failures
             [where b = example_backend and userId = "''user-1''" and name = "''test''"
                and instanceUrl = "''https://test.service-now.com''" and uname = "''tester''"
                and pw = "''secret''" and row = row and ba = "snd saved_credential"]
  from b s have "row \<in> set (servicenow_credentials (snd saved_credential)) \<and> sn_name row = ''test''"
    by blast
  with r have c3: "\<exists>row. fst saved_credential = Inr row
          \<and> row \<in> set (servicenow_credentials (snd saved_credential)) \<and> sn_name row = ''test''"
    by blast
  have d: "fst deleted = Inr ()"
    by code_simp
  then have ds: "deleteServiceNowCredential ''cred-1'' ''user-1'' cred_backend = (Inr (), snd deleted)"
    unfolding deleted_def by (metis prod.collapse)
  note c = store_failures
             [where b = cred_backend and cid = "''cred-1''" and userId = "''user-1''"
                and u = "()" and bc = "snd deleted"]
  from c ds have c4:
    "\<not> (\<exists>r \<in> set (servicenow_credentials (snd deleted)). sn_id r = ''cred-1'' \<and> sn_user_id r = ''user-1'')"
    by blast
  from h1 h2 c1 c2 c3 d c4 show ?thesis by (intro conjI)
qed

theorem write_sentinels_counterexample:
  "fst (saveConversation ''user-1'' ''Title'' [m1, m2] failing_backend) = None
   \<and> fst (updateConversationTitle ''uuid-0'' ''New title'' failing_backend) = False
   \<and> fst (deleteConversation ''uuid-0'' failing_backend) = False
   \<and> fst (getServiceNowCredentials ''user-1'' failing_backend) = Inl (Postgrest permission_denied)"
  by code_simp

section \<open>Abort signals\<close>

lemma supabase_fetch_sent:
  "supabase_fetch u options w = (r, w') \<Longrightarrow>
     (\<exists>req. sent w' = sent w @ [req] \<and> url req = u \<and> signal req = Some 15000)
     \<and> r = (case net w (length (sent w)) of Inl m \<Rightarrow> Inl (Js_error m) | Inr response \<Rightarrow> Inr response)"
  by (auto simp: supabase_fetch_def fetch_def Let_def split: sum.splits)

text \<open>
  C9 (as amended). A call through the fetch wrapper of the Supabase client sends one
  request, with the abort signal of a controller that a timer of 15000 ms aborts, and hands
  on what \<open>fetch\<close> gives: the response, or the error it rejected with. The requests of
  the ServiceNow API client, those of \<open>authenticate\<close> and of \<open>request\<close>, carry no abort
  signal.
\<close>

theorem abort_signals:
  "(supabase_fetch u options w = (r, w') \<longrightarrow>
      (\<exists>req. sent w' = sent w @ [req] \<and> url req = u \<and> signal req = Some 15000)
      \<and> r = (case net w (length (sent w)) of Inl m \<Rightarrow> Inl (Js_error m) | Inr response \<Rightarrow> Inr response))
   \<and> (authenticate c w = (ra, ca, wa) \<longrightarrow>
        (\<exists>new. sent wa = sent w @ new \<and> (\<forall>req \<in> set new. signal req = None)))
   \<and> (request fuel endpoint opts c w = Some (rr, cr, wr) \<longrightarrow>
        (\<exists>new. sent wr = sent w @ new \<and> (\<forall>req \<in> set new. signal req = None)))"
proof (intro conjI impI)
  assume s: "supabase_fetch u options w = (r, w')"
  from supabase_fetch_sent[OF s]
  show "\<exists>req. sent w' = sent w @ [req] \<and> url req = u \<and> signal req = Some 15000"
    and "r = (case net w (length (sent w)) of Inl m \<Rightarrow> Inl (Js_error m) | Inr response \<Rightarrow> Inr response)"
    by simp_all
next
  assume a: "authenticate c w = (ra, ca, wa)"
  from authenticate_sent[OF a] obtain new where
    "sent wa = sent w @ new" "\<forall>req \<in> set new. url req = verification_url c \<and> signal req = None"
    by blast
  then show "\<exists>new. sent wa = sent w @ new \<and> (\<forall>req \<in> set new. signal req = None)"
    by blast
next
  assume q: "request fuel endpoint opts c w = Some (rr, cr, wr)"
  from request_sent[OF q] obtain new where
    "sent wr = sent w @ new"
    "\<forall>req \<in> set new. (url req = request_url c endpoint \<or> url req = verification_url c)
                         \<and> signal req = None"
    by blast
  then show "\<exists>new. sent wr = sent w @ new \<and> (\<forall>req \<in> set new. signal req = None)"
    by blast
qed

theorem abort_signals_witness:
  "map signal (sent (snd (supabase_fetch ''https://project.supabase.co/rest/v1/conversations''
                            select_init all_ok_world)))
     = [Some 15000]
   \<and> fst (supabase_fetch ''https://project.supabase.co/rest/v1/conversations'' select_init all_ok_world)
     = Inr users_response
   \<and> (\<exists>new. sent (snd (snd first_call)) = sent all_ok_world @ new
          \<and> (\<forall>req \<in> set new. signal req = None))
   \<and> request 5 ''v1/script/execute'' script_options example_client script_world \<noteq> None
   \<and> (\<exists>new. sent (snd (snd (the (request 5 ''v1/script/execute'' script_options example_client
                                      script_world))))
               = sent script_world @ new
          \<and> (\<forall>req \<in> set new. signal req = None))"
proof -
  let ?s = "supabase_fetch ''https://project.supabase.co/rest/v1/conversations'' select_init all_ok_world"
  have s: "?s = (fst ?s, snd ?s)" by simp
  have e0: "sent all_ok_world = []" and e1: "net all_ok_world 0 = Inr users_response"
    by (simp_all add: all_ok_world_def example_world_def)
  note a = abort_signals
             [where u = "''https://project.supabase.co/rest/v1/conversations''" and options = select_init
                and w = all_ok_world and r = "fst ?s" and w' = "snd ?s"
                and c = example_client and ra = "fst first_call" and ca = "fst (snd first_call)"
                and wa = "snd (snd first_call)"]
  have f: "authenticate example_client all_ok_world
             = (fst first_call, fst (snd first_call), snd (snd first_call))"
    by (simp add: first_call_def)
  from a s have "\<exists>req. sent (snd ?s) = sent all_ok_world @ [req] \<and> signal req = Some 15000"
    by blast
  then have c1: "map signal (sent (snd ?s)) = [Some 15000]"
    using e0 by auto
  from a s have "fst ?s = (case net all_ok_world (length (sent all_ok_world)) of
                             Inl m \<Rightarrow> Inl (Js_error m) | Inr response \<Rightarrow> Inr response)"
    by blast
  then have c2: "fst ?s = Inr users_response"
    using e0 e1 by simp
  from a f have c3: "\<exists>new. sent (snd (snd first_call)) = sent all_ok_world @ new
          \<and> (\<forall>req \<in> set new. signal req = None)"
    by blast
  have h: "request 5 ''v1/script/execute'' script_options example_client script_world \<noteq> None"
    by code_simp
  then obtain r2 c2' w2 where
    q: "request 5 ''v1/script/execute'' script_options example_client script_world = Some (r2, c2', w2)"
    by auto
  note b = abort_signals
             [where fuel = 5 and endpoint = "''v1/script/execute''" and opts = script_options
                and c = example_client and w = script_world and rr = r2 and cr = c2' and wr = w2]
  from b q have "\<exists>new. sent w2 = sent script_world @ new \<and> (\<forall>req \<in> set new. signal req = None)"
    by blast
  moreover have "snd (snd (the (request 5 ''v1/script/execute'' script_options example_client
                                      script_world))) = w2"
    by (simp only: q option.sel snd_conv)
  ultimately have c4: "\<exists>new. sent (snd (snd (the (request 5 ''v1/script/execute'' script_options
                                       example_client script_world))))
               = sent script_world @ new
          \<and> (\<forall>req \<in> set new. signal req = None)"
    by simp
  from c1 c2 c3 h c4 show ?thesis by (intro conjI)
qed

theorem no_abort_signal_counterexample:
  "map signal (sent (snd (snd first_call))) = [None]
   \<and> map_option (\<lambda>(r, c, w). map signal (sent w))
        (executeScript 5 ''gs.info(1)'' example_client script_world)
     = Some [None, None]"
  by code_simp

end
